theory Spec2Isabelle
  imports Complex_Main "HOL-Library.Word" "HOL-Library.AList"
begin

section \<open>Python values, errors and truthiness\<close>

text \<open>
  The module \<^verbatim>\<open>vertexai/vision_models/_vision_models.py\<close> is embedded shallowly.
  Byte strings are lists of 8-bit words, Python strings are HOL strings, every
  \<^verbatim>\<open>raise\<close> is a value of \<open>py_error\<close> on the left of a sum.
\<close>

type_synonym bytes = "8 word list"

datatype py_error =
    ValueError string
  | KeyError string
  | IndexError
  | TypeError
  | AttributeError
  | ExternalError string

text \<open>
  JSON-like values travelling to and from the prediction service. A dictionary keeps
  its insertion order, as Python's does, so it is an association list with unique keys.
\<close>

datatype pyval =
    PNone
  | PBool bool
  | PInt int
  | PFloat real
  | PStr string
  | PList "pyval list"
  | PDict "(string \<times> pyval) list"

type_synonym pydict = "(string \<times> pyval) list"

text \<open>\<^verbatim>\<open>bool(x)\<close> for an optional string or byte string: \<^verbatim>\<open>None\<close> and the empty
  sequence are false.\<close>

definition py_bool_seq :: "'a list option \<Rightarrow> bool" where
  "py_bool_seq x = (case x of None \<Rightarrow> False | Some v \<Rightarrow> v \<noteq> [])"

text \<open>\<^verbatim>\<open>bool(x)\<close> for an optional integer: \<^verbatim>\<open>None\<close> and \<^verbatim>\<open>0\<close> are false.\<close>

definition py_bool_int :: "int option \<Rightarrow> bool" where
  "py_bool_int x = (case x of None \<Rightarrow> False | Some v \<Rightarrow> v \<noteq> 0)"

text \<open>\<^verbatim>\<open>bool(x)\<close> for a JSON-like value.\<close>

fun py_bool :: "pyval \<Rightarrow> bool" where
  "py_bool PNone = False"
| "py_bool (PBool b) = b"
| "py_bool (PInt i) = (i \<noteq> 0)"
| "py_bool (PFloat r) = (r \<noteq> 0)"
| "py_bool (PStr s) = (s \<noteq> [])"
| "py_bool (PList xs) = (xs \<noteq> [])"
| "py_bool (PDict d) = (d \<noteq> [])"

text \<open>\<^verbatim>\<open>d[k] = v\<close> and \<^verbatim>\<open>d.get(k)\<close> on a dictionary.\<close>

definition dict_set :: "string \<Rightarrow> pyval \<Rightarrow> pydict \<Rightarrow> pydict" where
  "dict_set k v d = AList.update k v d"

definition dict_get :: "pydict \<Rightarrow> string \<Rightarrow> pyval" where
  "dict_get d k = (case map_of d k of None \<Rightarrow> PNone | Some v \<Rightarrow> v)"

definition dict_keys :: "pydict \<Rightarrow> string set" where
  "dict_keys d = fst ` set d"

section \<open>The outside world\<close>

text \<open>
  What the module reaches outside itself is state: the objects of Cloud Storage and a log
  of the downloads made (\<^verbatim>\<open>storage.Blob.from_string(...).download_as_bytes()\<close>), the
  local files, the log of the calls made to \<^verbatim>\<open>self._endpoint.predict\<close>, and the
  store of the dictionary objects that hold generation parameters (addresses make
  aliasing visible).
\<close>

type_synonym addr = nat

record world =
  blobs :: "string \<Rightarrow> py_error + bytes"
  fetch_log :: "string list"
  files :: "string \<Rightarrow> bytes option"
  predict_log :: "(pyval list \<times> pydict) list"
  dicts :: "addr \<Rightarrow> pydict"
  next_addr :: addr

definition download_as_bytes :: "string \<Rightarrow> world \<Rightarrow> (py_error + bytes) \<times> world" where
  "download_as_bytes uri w = (blobs w uri, w\<lparr>fetch_log := fetch_log w @ [uri]\<rparr>)"

text \<open>A new dictionary object: \<^verbatim>\<open>{}\<close>, \<^verbatim>\<open>dict(d)\<close>, or the result of \<^verbatim>\<open>json.loads\<close>.
  Every address holds a dictionary (an address never handed out holds the empty one), so
  there is no dangling reference, as in Python.\<close>

definition store_set :: "addr \<Rightarrow> string \<Rightarrow> pyval \<Rightarrow> world \<Rightarrow> world" where
  "store_set a k v w = w\<lparr>dicts := (dicts w)(a := dict_set k v (dicts w a))\<rparr>"

definition new_dict :: "pydict \<Rightarrow> world \<Rightarrow> addr \<times> world" where
  "new_dict d w =
     (next_addr w, w\<lparr>dicts := (dicts w)(next_addr w := d), next_addr := Suc (next_addr w)\<rparr>)"

text \<open>The decoded image of PIL: only its size and its EXIF directory are used.\<close>

record pil_image =
  pil_size :: "int \<times> int"
  pil_exif :: "nat \<Rightarrow> string option"
  pil_pixels :: bytes

section \<open>Image and Video\<close>

text \<open>
  One record serves the class \<^verbatim>\<open>Image\<close> and its subclass \<^verbatim>\<open>GeneratedImage\<close>:
  \<open>generation_parameters\<close> is the address of the dictionary a \<^verbatim>\<open>GeneratedImage\<close>
  holds in \<^verbatim>\<open>_generation_parameters\<close>, and is \<open>None\<close> for a plain \<^verbatim>\<open>Image\<close>, so
  \<^verbatim>\<open>isinstance(image, GeneratedImage)\<close> is \<open>generation_parameters image \<noteq> None\<close>.
\<close>

record image =
  loaded_bytes :: "bytes option"
  loaded_image :: "pil_image option"
  gcs_uri :: "string option"
  generation_parameters :: "addr option"

text \<open>\<^verbatim>\<open>Image.__init__\<close> (lines 59-74).\<close>

definition Image_init :: "bytes option \<Rightarrow> string option \<Rightarrow> py_error + image" where
  "Image_init image_bytes uri =
     (if py_bool_seq image_bytes = py_bool_seq uri
      then Inl (ValueError ''Either image_bytes or gcs_uri must be provided.'')
      else Inr \<lparr>loaded_bytes = image_bytes, loaded_image = None, gcs_uri = uri,
                generation_parameters = None\<rparr>)"

text \<open>The property \<^verbatim>\<open>Image._image_bytes\<close> (lines 121-130): the download happens only
  while \<^verbatim>\<open>_loaded_bytes is None\<close>, and its result is stored.\<close>

definition image_bytes_get :: "image \<Rightarrow> world \<Rightarrow> (py_error + bytes) \<times> image \<times> world" where
  "image_bytes_get img w =
     (case loaded_bytes img of
        Some b \<Rightarrow> (Inr b, img, w)
      | None \<Rightarrow>
          (case gcs_uri img of
             None \<Rightarrow> (Inl TypeError, img, w)
           | Some uri \<Rightarrow>
               (case download_as_bytes uri w of
                  (Inl e, w') \<Rightarrow> (Inl e, img, w')
                | (Inr b, w') \<Rightarrow> (Inr b, img\<lparr>loaded_bytes := Some b\<rparr>, w'))))"

record video =
  video_loaded_bytes :: "bytes option"
  video_gcs_uri :: "string option"

text \<open>\<^verbatim>\<open>Video.__init__\<close> (lines 182-198).\<close>

definition Video_init :: "bytes option \<Rightarrow> string option \<Rightarrow> py_error + video" where
  "Video_init video_bytes uri =
     (if py_bool_seq video_bytes = py_bool_seq uri
      then Inl (ValueError ''Either video_bytes or gcs_uri must be provided.'')
      else Inr \<lparr>video_loaded_bytes = video_bytes, video_gcs_uri = uri\<rparr>)"

text \<open>The property \<^verbatim>\<open>Video._video_bytes\<close> (lines 218-227).\<close>

definition video_bytes_get :: "video \<Rightarrow> world \<Rightarrow> (py_error + bytes) \<times> video \<times> world" where
  "video_bytes_get vid w =
     (case video_loaded_bytes vid of
        Some b \<Rightarrow> (Inr b, vid, w)
      | None \<Rightarrow>
          (case video_gcs_uri vid of
             None \<Rightarrow> (Inl TypeError, vid, w)
           | Some uri \<Rightarrow>
               (case download_as_bytes uri w of
                  (Inl e, w') \<Rightarrow> (Inl e, vid, w')
                | (Inr b, w') \<Rightarrow> (Inr b, vid\<lparr>video_loaded_bytes := Some b\<rparr>, w'))))"

text \<open>A caller that reads the bytes \<open>n\<close> times in a row, keeping every answer.\<close>

fun read_image_bytes :: "nat \<Rightarrow> image \<Rightarrow> world \<Rightarrow> (py_error + bytes) list \<times> image \<times> world" where
  "read_image_bytes 0 img w = ([], img, w)"
| "read_image_bytes (Suc n) img w =
     (case image_bytes_get img w of
        (r, img', w') \<Rightarrow>
          (case read_image_bytes n img' w' of (rs, img'', w'') \<Rightarrow> (r # rs, img'', w'')))"

fun read_video_bytes :: "nat \<Rightarrow> video \<Rightarrow> world \<Rightarrow> (py_error + bytes) list \<times> video \<times> world" where
  "read_video_bytes 0 vid w = ([], vid, w)"
| "read_video_bytes (Suc n) vid w =
     (case video_bytes_get vid w of
        (r, vid', w') \<Rightarrow>
          (case read_video_bytes n vid' w' of (rs, vid'', w'') \<Rightarrow> (r # rs, vid'', w'')))"

section \<open>Libraries the module calls\<close>

text \<open>
  The functions of \<^verbatim>\<open>base64\<close>, \<^verbatim>\<open>hashlib\<close>, \<^verbatim>\<open>json\<close>, \<^verbatim>\<open>urllib\<close>, \<^verbatim>\<open>requests\<close>, PIL
  and the prediction endpoint are not part of the module: the model takes them as the
  fields of one record, and every theorem holds for whatever they compute.
\<close>

record http_response =
  resp_ok :: bool
  resp_content_length :: "string option"
  resp_content_type :: "string option"
  resp_content :: bytes

record lib =
  b64encode :: "bytes \<Rightarrow> string"
  b64decode :: "string \<Rightarrow> py_error + bytes"
  sha1_hexdigest :: "bytes \<Rightarrow> string"
  json_dumps :: "pyval \<Rightarrow> string"
  json_loads :: "string \<Rightarrow> py_error + pyval"
  urlparse :: "string \<Rightarrow> string \<times> string"
  requests_get :: "string \<Rightarrow> py_error + http_response"
  int_of_str :: "string \<Rightarrow> py_error + int"
  pil_available :: bool
  pil_open :: "bytes \<Rightarrow> py_error + pil_image"
  pil_encode :: "string \<Rightarrow> pil_image \<Rightarrow> (nat \<Rightarrow> string option) \<Rightarrow> py_error + bytes"
  predict :: "pyval list \<Rightarrow> pydict \<Rightarrow> py_error + pyval list"

text \<open>\<^verbatim>\<open>self._endpoint.predict(instances=..., parameters=...)\<close>: the call is logged, then
  answered by the service.\<close>

definition endpoint_predict ::
  "lib \<Rightarrow> pyval list \<Rightarrow> pydict \<Rightarrow> world \<Rightarrow> (py_error + pyval list) \<times> world" where
  "endpoint_predict L instances parameters w =
     (predict L instances parameters,
      w\<lparr>predict_log := predict_log w @ [(instances, parameters)]\<rparr>)"

subsection \<open>Built-ins: \<^verbatim>\<open>str(int)\<close>, \<^verbatim>\<open>str.startswith\<close>, \<^verbatim>\<open>str.replace\<close>\<close>

definition digit_char :: "nat \<Rightarrow> char" where
  "digit_char d = char_of (48 + d)"

function str_nat :: "nat \<Rightarrow> string" where
  "str_nat n = (if n < 10 then [digit_char n] else str_nat (n div 10) @ [digit_char (n mod 10)])"
  by pat_completeness auto
termination
  by (relation "measure id") auto

declare str_nat.simps [simp del]

definition py_str :: "int \<Rightarrow> string" where
  "py_str i = (if i < 0 then CHR ''-'' # str_nat (nat (- i)) else str_nat (nat i))"

definition startswith :: "string \<Rightarrow> string \<Rightarrow> bool" where
  "startswith s pre = (take (length pre) s = pre)"



section \<open>Derived properties of an image\<close>

text \<open>The property \<^verbatim>\<open>Image._pil_image\<close> (lines 136-140). \<^verbatim>\<open>PIL_Image.open\<close> is looked up
  before its argument is evaluated, so a missing PIL fails before any download.\<close>

definition pil_image_get ::
  "lib \<Rightarrow> image \<Rightarrow> world \<Rightarrow> (py_error + pil_image) \<times> image \<times> world" where
  "pil_image_get L img w =
     (case loaded_image img of
        Some p \<Rightarrow> (Inr p, img, w)
      | None \<Rightarrow>
          if \<not> pil_available L then (Inl AttributeError, img, w)
          else
            (case image_bytes_get img w of
               (Inl e, img', w') \<Rightarrow> (Inl e, img', w')
             | (Inr b, img', w') \<Rightarrow>
                 (case pil_open L b of
                    Inl e \<Rightarrow> (Inl e, img', w')
                  | Inr p \<Rightarrow> (Inr p, img'\<lparr>loaded_image := Some p\<rparr>, w'))))"

text \<open>The property \<^verbatim>\<open>Image._size\<close> (lines 142-144).\<close>

definition image_size ::
  "lib \<Rightarrow> image \<Rightarrow> world \<Rightarrow> (py_error + int \<times> int) \<times> image \<times> world" where
  "image_size L img w =
     (case pil_image_get L img w of
        (Inl e, img', w') \<Rightarrow> (Inl e, img', w')
      | (Inr p, img', w') \<Rightarrow> (Inr (pil_size p), img', w'))"

text \<open>\<^verbatim>\<open>Image._as_base64_string\<close> (lines 162-171).\<close>

definition as_base64_string ::
  "lib \<Rightarrow> image \<Rightarrow> world \<Rightarrow> (py_error + string) \<times> image \<times> world" where
  "as_base64_string L img w =
     (case image_bytes_get img w of
        (Inl e, img', w') \<Rightarrow> (Inl e, img', w')
      | (Inr b, img', w') \<Rightarrow> (Inr (b64encode L b), img', w'))"

text \<open>\<^verbatim>\<open>Video._as_base64_string\<close> (lines 241-250).\<close>

definition video_as_base64_string ::
  "lib \<Rightarrow> video \<Rightarrow> world \<Rightarrow> (py_error + string) \<times> video \<times> world" where
  "video_as_base64_string L vid w =
     (case video_bytes_get vid w of
        (Inl e, vid', w') \<Rightarrow> (Inl e, vid', w')
      | (Inr b, vid', w') \<Rightarrow> (Inr (b64encode L b), vid', w'))"

text \<open>\<^verbatim>\<open>GeneratedImage.__init__\<close> (lines 677-691): the constructor of \<^verbatim>\<open>Image\<close>, then the
  dictionary is kept by reference.\<close>

definition GeneratedImage_init ::
  "bytes option \<Rightarrow> addr \<Rightarrow> string option \<Rightarrow> py_error + image" where
  "GeneratedImage_init image_bytes params uri =
     (case Image_init image_bytes uri of
        Inl e \<Rightarrow> Inl e
      | Inr img \<Rightarrow> Inr (img\<lparr>generation_parameters := Some params\<rparr>))"

text \<open>The property \<^verbatim>\<open>GeneratedImage.generation_parameters\<close> (lines 693-696): the
  dictionary the object holds, read here from the store.\<close>

definition generation_parameters_get :: "world \<Rightarrow> image \<Rightarrow> pydict" where
  "generation_parameters_get w img =
     (case generation_parameters img of None \<Rightarrow> [] | Some a \<Rightarrow> dicts w a)"

record image_generation_response =
  images :: "image list"

section \<open>ImageGenerationModel\<close>

subsection \<open>\<^verbatim>\<open>_generate_images\<close> (lines 326-460)\<close>

text \<open>Lines 377-391. An \<^verbatim>\<open>Image\<close> object is always true, so \<^verbatim>\<open>if base_image:\<close> asks whether
  one was passed; \<^verbatim>\<open>if base_image._gcs_uri:\<close> asks for a non-empty string.\<close>

definition base_image_block ::
  "lib \<Rightarrow> image option \<Rightarrow> pydict \<Rightarrow> pydict \<Rightarrow> world \<Rightarrow>
     (py_error + pydict \<times> pydict) \<times> image option \<times> world" where
  "base_image_block L base_image instance shared w =
     (case base_image of
        None \<Rightarrow> (Inr (instance, shared), None, w)
      | Some img \<Rightarrow>
          (case gcs_uri img of
             Some (c # cs) \<Rightarrow>
               (Inr (dict_set ''image'' (PDict [(''gcsUri'', PStr (c # cs))]) instance,
                     dict_set ''base_image_uri'' (PStr (c # cs)) shared),
                Some img, w)
           | _ \<Rightarrow>
               (case as_base64_string L img w of
                  (Inl e, img1, w1) \<Rightarrow> (Inl e, Some img1, w1)
                | (Inr s, img1, w1) \<Rightarrow>
                    (case image_bytes_get img1 w1 of
                       (Inl e, img2, w2) \<Rightarrow> (Inl e, Some img2, w2)
                     | (Inr b, img2, w2) \<Rightarrow>
                         (Inr (dict_set ''image'' (PDict [(''bytesBase64Encoded'', PStr s)]) instance,
                               dict_set ''base_image_hash'' (PStr (sha1_hexdigest L b)) shared),
                          Some img2, w2)))))"

text \<open>Lines 393-411.\<close>

definition mask_block ::
  "lib \<Rightarrow> image option \<Rightarrow> pydict \<Rightarrow> pydict \<Rightarrow> world \<Rightarrow>
     (py_error + pydict \<times> pydict) \<times> image option \<times> world" where
  "mask_block L mask_image instance shared w =
     (case mask_image of
        None \<Rightarrow> (Inr (instance, shared), None, w)
      | Some img \<Rightarrow>
          (case gcs_uri img of
             Some (c # cs) \<Rightarrow>
               (Inr (dict_set ''mask'' (PDict [(''image'', PDict [(''gcsUri'', PStr (c # cs))])]) instance,
                     dict_set ''mask_uri'' (PStr (c # cs)) shared),
                Some img, w)
           | _ \<Rightarrow>
               (case as_base64_string L img w of
                  (Inl e, img1, w1) \<Rightarrow> (Inl e, Some img1, w1)
                | (Inr s, img1, w1) \<Rightarrow>
                    (case image_bytes_get img1 w1 of
                       (Inl e, img2, w2) \<Rightarrow> (Inl e, Some img2, w2)
                     | (Inr b, img2, w2) \<Rightarrow>
                         (Inr (dict_set ''mask''
                                 (PDict [(''image'', PDict [(''bytesBase64Encoded'', PStr s)])]) instance,
                               dict_set ''mask_hash'' (PStr (sha1_hexdigest L b)) shared),
                          Some img2, w2)))))"

text \<open>\<^verbatim>\<open>x or 0\<close> for an optional integer.\<close>

definition or0 :: "int option \<Rightarrow> int" where
  "or0 x = (case x of None \<Rightarrow> 0 | Some v \<Rightarrow> v)"

text \<open>Lines 413-441: the parameters of the request and the rest of the shared bag.
  The result is \<open>(parameters, shared_generation_parameters)\<close>.\<close>

definition parameters_block ::
  "string option \<Rightarrow> int \<Rightarrow> int option \<Rightarrow> int option \<Rightarrow> real option \<Rightarrow> int option \<Rightarrow>
     string option \<Rightarrow> string option \<Rightarrow> pydict \<Rightarrow> pydict \<times> pydict" where
  "parameters_block negative_prompt number_of_images width height guidance_scale seed
       language output_gcs_uri shared =
     (let max_size = max (or0 width) (or0 height);
          p1 = (if max_size \<noteq> 0
                then (let p = dict_set ''sampleImageSize'' (PStr (py_str max_size)) [] in
                      case (width, height) of
                        (Some wd, Some ht) \<Rightarrow>
                          if ht \<noteq> wd
                          then dict_set ''aspectRatio'' (PStr (py_str wd @ '':'' @ py_str ht)) p
                          else p
                      | _ \<Rightarrow> p)
                else []);
          p2 = dict_set ''sampleCount'' (PInt number_of_images) p1;
          (p3, s3) = (case negative_prompt of
                        Some (c # cs) \<Rightarrow>
                          (dict_set ''negativePrompt'' (PStr (c # cs)) p2,
                           dict_set ''negative_prompt'' (PStr (c # cs)) shared)
                      | _ \<Rightarrow> (p2, shared));
          (p4, s4) = (case seed of
                        Some n \<Rightarrow> (dict_set ''seed'' (PInt n) p3, dict_set ''seed'' (PInt n) s3)
                      | None \<Rightarrow> (p3, s3));
          (p5, s5) = (case guidance_scale of
                        Some g \<Rightarrow>
                          (dict_set ''guidanceScale'' (PFloat g) p4,
                           dict_set ''guidance_scale'' (PFloat g) s4)
                      | None \<Rightarrow> (p4, s4));
          (p6, s6) = (case language of
                        Some l \<Rightarrow>
                          (dict_set ''language'' (PStr l) p5, dict_set ''language'' (PStr l) s5)
                      | None \<Rightarrow> (p5, s5));
          (p7, s7) = (case output_gcs_uri of
                        Some u \<Rightarrow>
                          (dict_set ''storageUri'' (PStr u) p6, dict_set ''storage_uri'' (PStr u) s6)
                      | None \<Rightarrow> (p6, s6))
      in (p7, s7))"

text \<open>Lines 452-457 and 637-642: a prediction becomes a \<^verbatim>\<open>GeneratedImage\<close> that keeps the
  dictionary at \<open>params\<close>. A prediction that is no dictionary has no \<^verbatim>\<open>get\<close>;
  \<^verbatim>\<open>b64decode\<close> refuses what is not a string; a \<^verbatim>\<open>gcsUri\<close> that is neither a string
  nor \<^verbatim>\<open>None\<close> has no place in the typed record and is refused here.\<close>

definition decode_prediction :: "lib \<Rightarrow> pyval \<Rightarrow> addr \<Rightarrow> py_error + image" where
  "decode_prediction L prediction params =
     (case prediction of
        PDict p \<Rightarrow>
          (let encoded_bytes = dict_get p ''bytesBase64Encoded'' in
           case (if py_bool encoded_bytes
                 then (case encoded_bytes of
                         PStr s \<Rightarrow> (case b64decode L s of Inl e \<Rightarrow> Inl e | Inr b \<Rightarrow> Inr (Some b))
                       | _ \<Rightarrow> Inl TypeError)
                 else Inr None) of
             Inl e \<Rightarrow> Inl e
           | Inr image_bytes \<Rightarrow>
               (case dict_get p ''gcsUri'' of
                  PNone \<Rightarrow> GeneratedImage_init image_bytes params None
                | PStr u \<Rightarrow> GeneratedImage_init image_bytes params (Some u)
                | _ \<Rightarrow> Inl TypeError))
      | _ \<Rightarrow> Inl AttributeError)"

text \<open>Lines 448-458: the loop over \<^verbatim>\<open>enumerate(response.predictions)\<close>. Each round copies
  the shared bag into a new dictionary, writes the index into the copy, and wraps the
  prediction; an exception ends the loop and the call.\<close>

fun wrap_predictions ::
  "lib \<Rightarrow> pydict \<Rightarrow> nat \<Rightarrow> pyval list \<Rightarrow> world \<Rightarrow> (py_error + image list) \<times> world" where
  "wrap_predictions L shared idx [] w = (Inr [], w)"
| "wrap_predictions L shared idx (prediction # rest) w =
     (case new_dict shared w of
        (params, w1) \<Rightarrow>
          (let w2 = store_set params ''index_of_image_in_batch'' (PInt (int idx)) w1 in
           case decode_prediction L prediction params of
             Inl e \<Rightarrow> (Inl e, w2)
           | Inr generated_image \<Rightarrow>
               (case wrap_predictions L shared (Suc idx) rest w2 of
                  (Inl e, w3) \<Rightarrow> (Inl e, w3)
                | (Inr generated_images, w3) \<Rightarrow> (Inr (generated_image # generated_images), w3))))"

definition private_generate_images ::
  "lib \<Rightarrow> string \<Rightarrow> string option \<Rightarrow> int \<Rightarrow> int option \<Rightarrow> int option \<Rightarrow> real option \<Rightarrow>
     int option \<Rightarrow> image option \<Rightarrow> image option \<Rightarrow> string option \<Rightarrow> string option \<Rightarrow> world \<Rightarrow>
     (py_error + image_generation_response) \<times> image option \<times> image option \<times> world" where
  "private_generate_images L prompt negative_prompt number_of_images width height guidance_scale
       seed base_image mask_image language output_gcs_uri w =
     (let instance = [(''prompt'', PStr prompt)];
          shared_generation_parameters =
            [(''prompt'', PStr prompt), (''number_of_images_in_batch'', PInt number_of_images)]
      in
      case base_image_block L base_image instance shared_generation_parameters w of
        (Inl e, base_image1, w1) \<Rightarrow> (Inl e, base_image1, mask_image, w1)
      | (Inr (instance1, shared1), base_image1, w1) \<Rightarrow>
          (case mask_block L mask_image instance1 shared1 w1 of
             (Inl e, mask1, w2) \<Rightarrow> (Inl e, base_image1, mask1, w2)
           | (Inr (instance2, shared2), mask1, w2) \<Rightarrow>
               (case parameters_block negative_prompt number_of_images width height
                       guidance_scale seed language output_gcs_uri shared2 of
                  (parameters, shared3) \<Rightarrow>
                    (case endpoint_predict L [PDict instance2] parameters w2 of
                       (Inl e, w3) \<Rightarrow> (Inl e, base_image1, mask1, w3)
                     | (Inr predictions, w3) \<Rightarrow>
                         (case wrap_predictions L shared3 0 predictions w3 of
                            (Inl e, w4) \<Rightarrow> (Inl e, base_image1, mask1, w4)
                          | (Inr generated_images, w4) \<Rightarrow>
                              (Inr \<lparr>images = generated_images\<rparr>, base_image1, mask1, w4))))))"

text \<open>\<^verbatim>\<open>generate_images\<close> (lines 462-505) and \<^verbatim>\<open>edit_image\<close> (lines 507-553).\<close>

definition generate_images ::
  "lib \<Rightarrow> string \<Rightarrow> string option \<Rightarrow> int \<Rightarrow> real option \<Rightarrow> string option \<Rightarrow> int option \<Rightarrow>
     string option \<Rightarrow> world \<Rightarrow> (py_error + image_generation_response) \<times> world" where
  "generate_images L prompt negative_prompt number_of_images guidance_scale language seed
       output_gcs_uri w =
     (case private_generate_images L prompt negative_prompt number_of_images None None
             guidance_scale seed None None language output_gcs_uri w of
        (r, _, _, w') \<Rightarrow> (r, w'))"

definition edit_image ::
  "lib \<Rightarrow> string \<Rightarrow> image \<Rightarrow> image option \<Rightarrow> string option \<Rightarrow> int \<Rightarrow> real option \<Rightarrow>
     string option \<Rightarrow> int option \<Rightarrow> string option \<Rightarrow> world \<Rightarrow>
     (py_error + image_generation_response) \<times> image option \<times> image option \<times> world" where
  "edit_image L prompt base_image mask_image negative_prompt number_of_images guidance_scale language
       seed output_gcs_uri w =
     private_generate_images L prompt negative_prompt number_of_images None None
       guidance_scale seed (Some base_image) mask_image language output_gcs_uri w"

subsection \<open>\<^verbatim>\<open>upscale_image\<close> (lines 555-642)\<close>

definition supported_upscaling_sizes :: "int list" where
  "supported_upscaling_sizes = [2048, 4096]"

definition unsupported_source_size :: py_error where
  "unsupported_source_size =
     ValueError ''Upscaling is currently only supported on images that are 1024x1024.''"

definition unsupported_target_size :: py_error where
  "unsupported_target_size =
     ValueError ''Only the folowing square upscaling sizes are currently supported: [2048, 4096].''"

text \<open>Lines 602-611.\<close>

definition upscale_instance ::
  "lib \<Rightarrow> image \<Rightarrow> world \<Rightarrow> (py_error + pydict) \<times> image \<times> world" where
  "upscale_instance L img w =
     (let instance = [(''prompt'', PStr [])] in
      case gcs_uri img of
        Some (c # cs) \<Rightarrow> (Inr (dict_set ''image'' (PDict [(''gcsUri'', PStr (c # cs))]) instance), img, w)
      | _ \<Rightarrow>
          (case as_base64_string L img w of
             (Inl e, img1, w1) \<Rightarrow> (Inl e, img1, w1)
           | (Inr s, img1, w1) \<Rightarrow>
               (Inr (dict_set ''image'' (PDict [(''bytesBase64Encoded'', PStr s)]) instance), img1, w1)))"

text \<open>Lines 613-620.\<close>

definition upscale_parameters :: "int \<Rightarrow> string option \<Rightarrow> pydict" where
  "upscale_parameters new_size output_gcs_uri =
     (let parameters =
            [(''sampleImageSize'', PStr (py_str new_size)), (''sampleCount'', PInt 1),
             (''mode'', PStr ''upscale'')]
      in case output_gcs_uri of
           Some u \<Rightarrow> dict_set ''storageUri'' (PStr u) parameters
         | None \<Rightarrow> parameters)"

text \<open>Lines 627-642: the first prediction is wrapped. A \<^verbatim>\<open>GeneratedImage\<close> hands over its
  own dictionary (the same object, no copy); a plain \<^verbatim>\<open>Image\<close> gets a new empty one. The
  size is written into that dictionary before the prediction is looked at.\<close>

definition upscale_result ::
  "lib \<Rightarrow> image \<Rightarrow> int \<Rightarrow> pyval list \<Rightarrow> world \<Rightarrow> (py_error + image) \<times> world" where
  "upscale_result L img new_size predictions w =
     (case predictions of
        [] \<Rightarrow> (Inl IndexError, w)
      | upscaled_image # _ \<Rightarrow>
          (case (case generation_parameters img of
                   Some a \<Rightarrow> (a, w)
                 | None \<Rightarrow> new_dict [] w) of
             (params, w1) \<Rightarrow>
               (let w2 = store_set params ''upscaled_image_size'' (PInt new_size) w1 in
                (decode_prediction L upscaled_image params, w2))))"

text \<open>The whole method. The second read of \<^verbatim>\<open>image._size\<close> in line 592 finds the decoded
  image already stored, so one read stands for both. The result is the returned image (or
  the exception), the argument as the call leaves it, and the world.\<close>

definition upscale_image ::
  "lib \<Rightarrow> image \<Rightarrow> int option \<Rightarrow> string option \<Rightarrow> world \<Rightarrow> (py_error + image) \<times> image \<times> world" where
  "upscale_image L img new_size output_gcs_uri w =
     (case image_size L img w of
        (Inl e, img1, w1) \<Rightarrow> (Inl e, img1, w1)
      | (Inr (size0, size1), img1, w1) \<Rightarrow>
          if size0 \<noteq> 1024 \<and> size1 \<noteq> 1024 then (Inl unsupported_source_size, img1, w1)
          else
            (case new_size of
               None \<Rightarrow> (Inl unsupported_target_size, img1, w1)
             | Some n \<Rightarrow>
                 if n \<notin> set supported_upscaling_sizes then (Inl unsupported_target_size, img1, w1)
                 else
                   (case upscale_instance L img1 w1 of
                      (Inl e, img2, w2) \<Rightarrow> (Inl e, img2, w2)
                    | (Inr instance, img2, w2) \<Rightarrow>
                        (case endpoint_predict L [PDict instance]
                                (upscale_parameters n output_gcs_uri) w2 of
                           (Inl e, w3) \<Rightarrow> (Inl e, img2, w3)
                         | (Inr predictions, w3) \<Rightarrow>
                             (case upscale_result L img2 n predictions w3 of
                                (r, w4) \<Rightarrow> (r, img2, w4))))))"

section \<open>ImageCaptioningModel and ImageQnAModel\<close>

text \<open>\<^verbatim>\<open>get_captions\<close> (lines 764-805).\<close>

definition get_captions ::
  "lib \<Rightarrow> image \<Rightarrow> int \<Rightarrow> string \<Rightarrow> string option \<Rightarrow> world \<Rightarrow>
     (py_error + pyval list) \<times> image \<times> world" where
  "get_captions L img number_of_results language output_gcs_uri w =
     (case (case gcs_uri img of
              Some (c # cs) \<Rightarrow> (Inr (dict_set ''image'' (PDict [(''gcsUri'', PStr (c # cs))]) []), img, w)
            | _ \<Rightarrow>
                (case as_base64_string L img w of
                   (Inl e, img1, w1) \<Rightarrow> (Inl e, img1, w1)
                 | (Inr s, img1, w1) \<Rightarrow>
                     (Inr (dict_set ''image'' (PDict [(''bytesBase64Encoded'', PStr s)]) []), img1, w1))) of
        (Inl e, img1, w1) \<Rightarrow> (Inl e, img1, w1)
      | (Inr instance, img1, w1) \<Rightarrow>
          (let parameters = [(''sampleCount'', PInt number_of_results), (''language'', PStr language)];
               parameters1 = (case output_gcs_uri of
                                Some u \<Rightarrow> dict_set ''storageUri'' (PStr u) parameters
                              | None \<Rightarrow> parameters)
           in case endpoint_predict L [PDict instance] parameters1 w1 of
                (r, w2) \<Rightarrow> (r, img1, w2)))"

text \<open>\<^verbatim>\<open>ask_question\<close> (lines 829-864).\<close>

definition ask_question ::
  "lib \<Rightarrow> image \<Rightarrow> string \<Rightarrow> int \<Rightarrow> world \<Rightarrow> (py_error + pyval list) \<times> image \<times> world" where
  "ask_question L img question number_of_results w =
     (let instance = [(''prompt'', PStr question)] in
      case (case gcs_uri img of
              Some (c # cs) \<Rightarrow>
                (Inr (dict_set ''image'' (PDict [(''gcsUri'', PStr (c # cs))]) instance), img, w)
            | _ \<Rightarrow>
                (case as_base64_string L img w of
                   (Inl e, img1, w1) \<Rightarrow> (Inl e, img1, w1)
                 | (Inr s, img1, w1) \<Rightarrow>
                     (Inr (dict_set ''image'' (PDict [(''bytesBase64Encoded'', PStr s)]) instance),
                      img1, w1))) of
        (Inl e, img1, w1) \<Rightarrow> (Inl e, img1, w1)
      | (Inr instance1, img1, w1) \<Rightarrow>
          (case endpoint_predict L [PDict instance1] [(''sampleCount'', PInt number_of_results)] w1 of
             (r, w2) \<Rightarrow> (r, img1, w2)))"

section \<open>MultiModalEmbeddingModel\<close>

record video_segment_config =
  start_offset_sec :: int
  end_offset_sec :: int
  interval_sec :: int

text \<open>\<^verbatim>\<open>VideoSegmentConfig.__init__\<close> (lines 262-277) with its defaults.\<close>

definition VideoSegmentConfig_init :: "int option \<Rightarrow> int option \<Rightarrow> int option \<Rightarrow> video_segment_config" where
  "VideoSegmentConfig_init s e i =
     \<lparr>start_offset_sec = (case s of None \<Rightarrow> 0 | Some v \<Rightarrow> v),
      end_offset_sec = (case e of None \<Rightarrow> 120 | Some v \<Rightarrow> v),
      interval_sec = (case i of None \<Rightarrow> 16 | Some v \<Rightarrow> v)\<rparr>"

record video_embedding =
  embedding_start_offset_sec :: pyval
  embedding_end_offset_sec :: pyval
  embedding :: pyval

record multimodal_embedding_response =
  prediction_response :: "pyval list"
  image_embedding :: pyval
  video_embeddings :: "video_embedding list"
  text_embedding :: pyval

text \<open>\<^verbatim>\<open>x[key]\<close> with a string key: only a dictionary answers, with \<^verbatim>\<open>KeyError\<close> for a
  missing key.\<close>

definition getitem :: "pyval \<Rightarrow> string \<Rightarrow> py_error + pyval" where
  "getitem x k =
     (case x of
        PDict d \<Rightarrow> (case map_of d k of None \<Rightarrow> Inl (KeyError k) | Some v \<Rightarrow> Inr v)
      | _ \<Rightarrow> Inl TypeError)"

text \<open>What a \<^verbatim>\<open>for\<close> loop over a value visits: the items of a list, the characters of a
  string, the keys of a dictionary; nothing else can be iterated.\<close>

definition iterate :: "pyval \<Rightarrow> py_error + pyval list" where
  "iterate x =
     (case x of
        PList xs \<Rightarrow> Inr xs
      | PStr s \<Rightarrow> Inr (map (\<lambda>c. PStr [c]) s)
      | PDict d \<Rightarrow> Inr (map (\<lambda>kv. PStr (fst kv)) d)
      | _ \<Rightarrow> Inl TypeError)"

text \<open>Lines 971-978: the keyword arguments are evaluated in the order written.\<close>

fun decode_video_embeddings :: "pyval list \<Rightarrow> py_error + video_embedding list" where
  "decode_video_embeddings [] = Inr []"
| "decode_video_embeddings (ve # rest) =
     (case getitem ve ''embedding'' of
        Inl e \<Rightarrow> Inl e
      | Inr emb \<Rightarrow>
          (case getitem ve ''startOffsetSec'' of
             Inl e \<Rightarrow> Inl e
           | Inr st \<Rightarrow>
               (case getitem ve ''endOffsetSec'' of
                  Inl e \<Rightarrow> Inl e
                | Inr en \<Rightarrow>
                    (case decode_video_embeddings rest of
                       Inl e \<Rightarrow> Inl e
                     | Inr ves \<Rightarrow>
                         Inr (\<lparr>embedding_start_offset_sec = st, embedding_end_offset_sec = en,
                               embedding = emb\<rparr> # ves)))))"

text \<open>Lines 929-939.\<close>

definition embeddings_image_block ::
  "lib \<Rightarrow> image option \<Rightarrow> pydict \<Rightarrow> world \<Rightarrow> (py_error + pydict) \<times> image option \<times> world" where
  "embeddings_image_block L image_arg instance w =
     (case image_arg of
        None \<Rightarrow> (Inr instance, None, w)
      | Some img \<Rightarrow>
          (case gcs_uri img of
             Some (c # cs) \<Rightarrow>
               (Inr (dict_set ''image'' (PDict [(''gcsUri'', PStr (c # cs))]) instance), Some img, w)
           | _ \<Rightarrow>
               (case as_base64_string L img w of
                  (Inl e, img1, w1) \<Rightarrow> (Inl e, Some img1, w1)
                | (Inr s, img1, w1) \<Rightarrow>
                    (Inr (dict_set ''image'' (PDict [(''bytesBase64Encoded'', PStr s)]) instance),
                     Some img1, w1))))"

text \<open>Lines 941-956. The segment configuration is written into the dictionary that
  \<^verbatim>\<open>instance["video"]\<close> already holds; a \<^verbatim>\<open>VideoSegmentConfig\<close> object is always true.\<close>

definition embeddings_video_block ::
  "lib \<Rightarrow> video option \<Rightarrow> video_segment_config option \<Rightarrow> pydict \<Rightarrow> world \<Rightarrow>
     (py_error + pydict) \<times> video option \<times> world" where
  "embeddings_video_block L video_arg segment_config instance w =
     (case video_arg of
        None \<Rightarrow> (Inr instance, None, w)
      | Some vid \<Rightarrow>
          (case (case video_gcs_uri vid of
                   Some (c # cs) \<Rightarrow> (Inr [(''gcsUri'', PStr (c # cs))], vid, w)
                 | _ \<Rightarrow>
                     (case video_as_base64_string L vid w of
                        (Inl e, vid1, w1) \<Rightarrow> (Inl e, vid1, w1)
                      | (Inr s, vid1, w1) \<Rightarrow> (Inr [(''bytesBase64Encoded'', PStr s)], vid1, w1))) of
             (Inl e, vid1, w1) \<Rightarrow> (Inl e, Some vid1, w1)
           | (Inr entry, vid1, w1) \<Rightarrow>
               (let entry1 =
                      (case segment_config of
                         None \<Rightarrow> entry
                       | Some cfg \<Rightarrow>
                           dict_set ''videoSegmentConfig''
                             (PDict [(''startOffsetSec'', PInt (start_offset_sec cfg)),
                                     (''endOffsetSec'', PInt (end_offset_sec cfg)),
                                     (''intervalSec'', PInt (interval_sec cfg))])
                             entry)
                in (Inr (dict_set ''video'' (PDict entry1) instance), Some vid1, w1))))"

text \<open>Lines 961-963: \<^verbatim>\<open>if dimension:\<close> is false for \<^verbatim>\<open>None\<close> and for \<^verbatim>\<open>0\<close>.\<close>

definition embeddings_parameters :: "int option \<Rightarrow> pydict" where
  "embeddings_parameters dimension =
     (case dimension of
        None \<Rightarrow> []
      | Some d \<Rightarrow> if d \<noteq> 0 then dict_set ''dimension'' (PInt d) [] else [])"

text \<open>Lines 969-989.\<close>

definition embeddings_response :: "pyval list \<Rightarrow> py_error + multimodal_embedding_response" where
  "embeddings_response predictions =
     (case predictions of
        [] \<Rightarrow> Inl IndexError
      | PDict p # _ \<Rightarrow>
          (case iterate (case map_of p ''videoEmbeddings'' of None \<Rightarrow> PList [] | Some v \<Rightarrow> v) of
             Inl e \<Rightarrow> Inl e
           | Inr items \<Rightarrow>
               (case decode_video_embeddings items of
                  Inl e \<Rightarrow> Inl e
                | Inr ves \<Rightarrow>
                    Inr \<lparr>prediction_response = predictions,
                         image_embedding = dict_get p ''imageEmbedding'',
                         video_embeddings = ves,
                         text_embedding = dict_get p ''textEmbedding''\<rparr>))
      | _ \<Rightarrow> Inl AttributeError)"

definition missing_input :: py_error where
  "missing_input = ValueError ''One of `image`, `video`, or `contextual_text` is required.''"

text \<open>\<^verbatim>\<open>get_embeddings\<close> (lines 890-989). \<^verbatim>\<open>Image\<close> and \<^verbatim>\<open>Video\<close> objects are always
  true, so \<^verbatim>\<open>not image\<close> asks whether none was passed; \<^verbatim>\<open>not contextual_text\<close> holds for
  \<^verbatim>\<open>None\<close> and for the empty string.\<close>

definition get_embeddings ::
  "lib \<Rightarrow> image option \<Rightarrow> video option \<Rightarrow> string option \<Rightarrow> int option \<Rightarrow>
     video_segment_config option \<Rightarrow> world \<Rightarrow>
     (py_error + multimodal_embedding_response) \<times> image option \<times> video option \<times> world" where
  "get_embeddings L image_arg video_arg contextual_text dimension segment_config w =
     (if image_arg = None \<and> video_arg = None \<and> \<not> py_bool_seq contextual_text
      then (Inl missing_input, image_arg, video_arg, w)
      else
        (case embeddings_image_block L image_arg [] w of
           (Inl e, image1, w1) \<Rightarrow> (Inl e, image1, video_arg, w1)
         | (Inr instance1, image1, w1) \<Rightarrow>
             (case embeddings_video_block L video_arg segment_config instance1 w1 of
                (Inl e, video1, w2) \<Rightarrow> (Inl e, image1, video1, w2)
              | (Inr instance2, video1, w2) \<Rightarrow>
                  (let instance3 =
                         (case contextual_text of
                            Some (c # cs) \<Rightarrow> dict_set ''text'' (PStr (c # cs)) instance2
                          | _ \<Rightarrow> instance2)
                   in case endpoint_predict L [PDict instance3] (embeddings_parameters dimension) w2 of
                        (Inl e, w3) \<Rightarrow> (Inl e, image1, video1, w3)
                      | (Inr predictions, w3) \<Rightarrow>
                          (embeddings_response predictions, image1, video1, w3)))))"

section \<open>Files\<close>



text \<open>\<^verbatim>\<open>Video.load_from_file\<close> (lines 200-216).\<close>

definition Video_load_from_file :: "string \<Rightarrow> world \<Rightarrow> py_error + video" where
  "Video_load_from_file location w =
     (if startswith location ''gs://'' then Video_init None (Some location)
      else
        (case files w location of
           None \<Rightarrow> Inl (ExternalError ''FileNotFoundError'')
         | Some video_bytes \<Rightarrow> Video_init (Some video_bytes) None))"


section \<open>GeneratedImage: parameters in the EXIF metadata\<close>





section \<open>Notions of the specification\<close>

text \<open>What the constructors establish and the accessors keep: the bytes are there, or a
  non-empty URI says where to fetch them.\<close>

definition image_inv :: "image \<Rightarrow> bool" where
  "image_inv img = (loaded_bytes img \<noteq> None \<or> py_bool_seq (gcs_uri img))"

text \<open>The same for a video.\<close>

definition video_inv :: "video \<Rightarrow> bool" where
  "video_inv vid = (video_loaded_bytes vid \<noteq> None \<or> py_bool_seq (video_gcs_uri vid))"

text \<open>The specification's \<^verbatim>\<open>serialize_for_request()\<close>, in its words: a
  \<^verbatim>\<open>{gcsUri: ...}\<close>-shaped reference for a remote image, a \<^verbatim>\<open>{bytesBase64Encoded: ...}\<close>-shaped
  payload of the bytes held for an inline one. The builders of the module are compared
  with it.\<close>

definition serialize_for_request :: "lib \<Rightarrow> image \<Rightarrow> pydict" where
  "serialize_for_request L img =
     (case gcs_uri img of
        Some (c # cs) \<Rightarrow> [(''gcsUri'', PStr (c # cs))]
      | _ \<Rightarrow>
          (case loaded_bytes img of
             Some b \<Rightarrow> [(''bytesBase64Encoded'', PStr (b64encode L b))]
           | None \<Rightarrow> []))"

text \<open>The same for a video.\<close>

definition serialize_video_for_request :: "lib \<Rightarrow> video \<Rightarrow> pydict" where
  "serialize_video_for_request L vid =
     (case video_gcs_uri vid of
        Some (c # cs) \<Rightarrow> [(''gcsUri'', PStr (c # cs))]
      | _ \<Rightarrow>
          (case video_loaded_bytes vid of
             Some b \<Rightarrow> [(''bytesBase64Encoded'', PStr (b64encode L b))]
           | None \<Rightarrow> []))"

text \<open>The specification's rule for a base image or a mask: the URI of a remote one is
  recorded under \<open>uri_key\<close>, the hex digest of the bytes of an inline one under
  \<open>hash_key\<close>.\<close>

definition record_provenance :: "lib \<Rightarrow> string \<Rightarrow> string \<Rightarrow> image \<Rightarrow> pydict \<Rightarrow> pydict" where
  "record_provenance L uri_key hash_key img shared =
     (case gcs_uri img of
        Some (c # cs) \<Rightarrow> dict_set uri_key (PStr (c # cs)) shared
      | _ \<Rightarrow>
          (case loaded_bytes img of
             Some b \<Rightarrow> dict_set hash_key (PStr (sha1_hexdigest L b)) shared
           | None \<Rightarrow> shared))"

text \<open>The entry of a video with the segment configuration nested in it, when one is given.\<close>

definition segment_entry :: "video_segment_config option \<Rightarrow> pydict \<Rightarrow> pydict" where
  "segment_entry segment_config entry =
     (case segment_config of
        None \<Rightarrow> entry
      | Some cfg \<Rightarrow>
          dict_set ''videoSegmentConfig''
            (PDict [(''startOffsetSec'', PInt (start_offset_sec cfg)),
                    (''endOffsetSec'', PInt (end_offset_sec cfg)),
                    (''intervalSec'', PInt (interval_sec cfg))])
            entry)"

text \<open>The instance \<^verbatim>\<open>_generate_images\<close> is expected to send.\<close>

definition generation_instance :: "lib \<Rightarrow> string \<Rightarrow> image option \<Rightarrow> image option \<Rightarrow> pydict" where
  "generation_instance L prompt base_image mask_image =
     (let i1 = (case base_image of
                  None \<Rightarrow> [(''prompt'', PStr prompt)]
                | Some b \<Rightarrow>
                    dict_set ''image'' (PDict (serialize_for_request L b)) [(''prompt'', PStr prompt)])
      in case mask_image of
           None \<Rightarrow> i1
         | Some m \<Rightarrow> dict_set ''mask'' (PDict [(''image'', PDict (serialize_for_request L m))]) i1)"

text \<open>The shared bag \<^verbatim>\<open>_generate_images\<close> is expected to hold before the parameters are
  added (lines 369-411).\<close>

definition generation_shared ::
  "lib \<Rightarrow> string \<Rightarrow> int \<Rightarrow> image option \<Rightarrow> image option \<Rightarrow> pydict" where
  "generation_shared L prompt number_of_images base_image mask_image =
     (let s0 = [(''prompt'', PStr prompt), (''number_of_images_in_batch'', PInt number_of_images)];
          s1 = (case base_image of
                  None \<Rightarrow> s0
                | Some b \<Rightarrow> record_provenance L ''base_image_uri'' ''base_image_hash'' b s0)
      in case mask_image of
           None \<Rightarrow> s1
         | Some m \<Rightarrow> record_provenance L ''mask_uri'' ''mask_hash'' m s1)"


text \<open>The instance \<^verbatim>\<open>get_embeddings\<close> is expected to send.\<close>

definition embeddings_instance ::
  "lib \<Rightarrow> image option \<Rightarrow> video option \<Rightarrow> string option \<Rightarrow> video_segment_config option \<Rightarrow> pydict" where
  "embeddings_instance L image_arg video_arg contextual_text segment_config =
     (let i1 = (case image_arg of
                  None \<Rightarrow> []
                | Some img \<Rightarrow> dict_set ''image'' (PDict (serialize_for_request L img)) []);
          i2 = (case video_arg of
                  None \<Rightarrow> i1
                | Some vid \<Rightarrow>
                    dict_set ''video''
                      (PDict (segment_entry segment_config (serialize_video_for_request L vid))) i1)
      in case contextual_text of
           Some (c # cs) \<Rightarrow> dict_set ''text'' (PStr (c # cs)) i2
         | _ \<Rightarrow> i2)"

text \<open>\<^verbatim>\<open>if x is not None: d[k] = x\<close> as one step, and the narrowing of \<^verbatim>\<open>if x:\<close> on an
  optional string. With them the parameters of lines 413-441 are a chain of steps.\<close>

definition opt_set :: "string \<Rightarrow> pyval option \<Rightarrow> pydict \<Rightarrow> pydict" where
  "opt_set k x d = (case x of None \<Rightarrow> d | Some v \<Rightarrow> dict_set k v d)"

definition truthy :: "string option \<Rightarrow> string option" where
  "truthy x = (case x of Some (c # cs) \<Rightarrow> Some (c # cs) | _ \<Rightarrow> None)"

definition size_parameters :: "int option \<Rightarrow> int option \<Rightarrow> pydict" where
  "size_parameters width height =
     (if max (or0 width) (or0 height) \<noteq> 0
      then (case (width, height) of
              (Some wd, Some ht) \<Rightarrow>
                if ht \<noteq> wd
                then dict_set ''aspectRatio'' (PStr (py_str wd @ '':'' @ py_str ht))
                       (dict_set ''sampleImageSize'' (PStr (py_str (max (or0 width) (or0 height)))) [])
                else dict_set ''sampleImageSize'' (PStr (py_str (max (or0 width) (or0 height)))) []
            | _ \<Rightarrow> dict_set ''sampleImageSize'' (PStr (py_str (max (or0 width) (or0 height)))) [])
      else [])"

text \<open>An entry of a request holds exactly one of the two keys of a media reference.\<close>

definition one_media_key :: "pydict \<Rightarrow> bool" where
  "one_media_key entry =
     ((''gcsUri'' \<in> dict_keys entry) \<noteq> (''bytesBase64Encoded'' \<in> dict_keys entry))"

text \<open>A prediction the loop can wrap: it carries image bytes or a URI, not both and not
  neither, as the constructor of \<^verbatim>\<open>GeneratedImage\<close> demands.\<close>

definition prediction_ok :: "lib \<Rightarrow> pyval \<Rightarrow> bool" where
  "prediction_ok L p = (case decode_prediction L p 0 of Inl e \<Rightarrow> False | Inr g \<Rightarrow> True)"

section \<open>A model of \<^verbatim>\<open>json.dumps\<close> and \<^verbatim>\<open>json.loads\<close>\<close>

text \<open>
  The encoder writes what \<^verbatim>\<open>json.dumps\<close> writes with its default separators for
  \<^verbatim>\<open>None\<close>, booleans, integers, lists, dictionaries with string keys, and strings of
  printable ASCII characters, which need no escape other than the quote and the backslash.
  Floating-point numbers are outside it (they are written as \<^verbatim>\<open>NaN\<close> and never read
  back). The decoder is a recursive-descent parser with the text itself as fuel: every call
  consumes input, so the fuel cannot run out before the text does. As in \<^verbatim>\<open>json.loads\<close>,
  a repeated key keeps its last value.
\<close>

fun json_escape :: "string \<Rightarrow> string" where
  "json_escape [] = []"
| "json_escape (c # cs) =
     (if c = CHR 0x22 \<or> c = CHR 0x5C then CHR 0x5C # c # json_escape cs
      else c # json_escape cs)"

definition json_quote :: "string \<Rightarrow> string" where
  "json_quote s = CHR 0x22 # json_escape s @ [CHR 0x22]"

fun json_encode :: "pyval \<Rightarrow> string"
  and json_encode_items :: "pyval list \<Rightarrow> string"
  and json_encode_members :: "(string \<times> pyval) list \<Rightarrow> string" where
  "json_encode PNone = ''null''"
| "json_encode (PBool b) = (if b then ''true'' else ''false'')"
| "json_encode (PInt i) = py_str i"
| "json_encode (PFloat r) = ''NaN''"
| "json_encode (PStr s) = json_quote s"
| "json_encode (PList xs) = ''['' @ json_encode_items xs @ '']''"
| "json_encode (PDict d) = ''{'' @ json_encode_members d @ ''}''"
| "json_encode_items [] = []"
| "json_encode_items [x] = json_encode x"
| "json_encode_items (x # y # ys) = json_encode x @ '', '' @ json_encode_items (y # ys)"
| "json_encode_members [] = []"
| "json_encode_members [(k, v)] = json_quote k @ '': '' @ json_encode v"
| "json_encode_members ((k, v) # m # ms) =
     json_quote k @ '': '' @ json_encode v @ '', '' @ json_encode_members (m # ms)"

definition is_digit :: "char \<Rightarrow> bool" where
  "is_digit c = (48 \<le> (of_char c :: nat) \<and> (of_char c :: nat) \<le> 57)"

definition nat_of_digits :: "string \<Rightarrow> nat" where
  "nat_of_digits ds = foldl (\<lambda>n c. 10 * n + (of_char c - 48)) 0 ds"

definition skip_ws :: "string \<Rightarrow> string" where
  "skip_ws s = dropWhile (\<lambda>c. c = CHR '' '') s"

definition parse_nat :: "string \<Rightarrow> (nat \<times> string) option" where
  "parse_nat s =
     (let ds = takeWhile is_digit s; rest = dropWhile is_digit s in
      if ds = [] \<or> (hd ds = CHR ''0'' \<and> tl ds \<noteq> []) then None
      else if rest \<noteq> [] \<and> hd rest \<in> {CHR ''.'', CHR ''e'', CHR ''E''} then None
      else Some (nat_of_digits ds, rest))"

fun parse_string :: "string \<Rightarrow> (string \<times> string) option" where
  "parse_string [] = None"
| "parse_string [c] = (if c = CHR 0x22 then Some ([], []) else None)"
| "parse_string (c # e # r) =
     (if c = CHR 0x22 then Some ([], e # r)
      else if c = CHR 0x5C then
        (if e = CHR 0x22 \<or> e = CHR 0x5C
         then (case parse_string r of None \<Rightarrow> None | Some (str, r') \<Rightarrow> Some (e # str, r'))
         else None)
      else (case parse_string (e # r) of None \<Rightarrow> None | Some (str, r') \<Rightarrow> Some (c # str, r')))"

definition object_of_members :: "(string \<times> pyval) list \<Rightarrow> (string \<times> pyval) list" where
  "object_of_members ms = foldl (\<lambda>d kv. dict_set (fst kv) (snd kv) d) [] ms"

fun parse_value :: "'f list \<Rightarrow> string \<Rightarrow> (pyval \<times> string) option"
  and parse_items :: "'f list \<Rightarrow> string \<Rightarrow> (pyval list \<times> string) option"
  and parse_members :: "'f list \<Rightarrow> string \<Rightarrow> ((string \<times> pyval) list \<times> string) option" where
  "parse_value [] s = None"
| "parse_value (f # fuel) s =
     (case skip_ws s of
        [] \<Rightarrow> None
      | c # r \<Rightarrow>
          if c = CHR ''n'' then (if take 3 r = ''ull'' then Some (PNone, drop 3 r) else None)
          else if c = CHR ''t'' then (if take 3 r = ''rue'' then Some (PBool True, drop 3 r) else None)
          else if c = CHR ''f'' then (if take 4 r = ''alse'' then Some (PBool False, drop 4 r) else None)
          else if c = CHR 0x22 then
            (case parse_string r of None \<Rightarrow> None | Some (str, r') \<Rightarrow> Some (PStr str, r'))
          else if c = CHR ''['' then
            (case skip_ws r of
               [] \<Rightarrow> None
             | d # r' \<Rightarrow>
                 if d = CHR '']'' then Some (PList [], r')
                 else (case parse_items fuel r of
                         None \<Rightarrow> None
                       | Some (xs, r'') \<Rightarrow> Some (PList xs, r'')))
          else if c = CHR ''{'' then
            (case skip_ws r of
               [] \<Rightarrow> None
             | d # r' \<Rightarrow>
                 if d = CHR ''}'' then Some (PDict [], r')
                 else (case parse_members fuel r of
                         None \<Rightarrow> None
                       | Some (ms, r'') \<Rightarrow> Some (PDict (object_of_members ms), r'')))
          else if c = CHR ''-'' then
            (case parse_nat r of None \<Rightarrow> None | Some (n, r') \<Rightarrow> Some (PInt (- int n), r'))
          else (case parse_nat (c # r) of None \<Rightarrow> None | Some (n, r') \<Rightarrow> Some (PInt (int n), r')))"
| "parse_items [] s = None"
| "parse_items (f # fuel) s =
     (case parse_value fuel s of
        None \<Rightarrow> None
      | Some (v, r) \<Rightarrow>
          (case skip_ws r of
             [] \<Rightarrow> None
           | c # r' \<Rightarrow>
               if c = CHR '','' then
                 (case parse_items fuel r' of
                    None \<Rightarrow> None
                  | Some (vs, r'') \<Rightarrow> Some (v # vs, r''))
               else if c = CHR '']'' then Some ([v], r')
               else None))"
| "parse_members [] s = None"
| "parse_members (f # fuel) s =
     (case skip_ws s of
        [] \<Rightarrow> None
      | q # r \<Rightarrow>
          if q \<noteq> CHR 0x22 then None
          else
            (case parse_string r of
               None \<Rightarrow> None
             | Some (k, r1) \<Rightarrow>
                 (case skip_ws r1 of
                    [] \<Rightarrow> None
                  | c # r2 \<Rightarrow>
                      if c \<noteq> CHR '':'' then None
                      else
                        (case parse_value fuel r2 of
                           None \<Rightarrow> None
                         | Some (v, r3) \<Rightarrow>
                             (case skip_ws r3 of
                                [] \<Rightarrow> None
                              | c' # r4 \<Rightarrow>
                                  if c' = CHR '','' then
                                    (case parse_members fuel r4 of
                                       None \<Rightarrow> None
                                     | Some (ms, r5) \<Rightarrow> Some ((k, v) # ms, r5))
                                  else if c' = CHR ''}'' then Some ([(k, v)], r4)
                                  else None)))))"

definition json_decode :: "string \<Rightarrow> py_error + pyval" where
  "json_decode s =
     (case parse_value (CHR ''0'' # s) s of
        None \<Rightarrow> Inl (ValueError ''JSONDecodeError'')
      | Some (v, r) \<Rightarrow> if skip_ws r = [] then Inr v else Inl (ValueError ''JSONDecodeError''))"




section \<open>A concrete setting for examples\<close>

text \<open>One bucket object and nothing else: no local file, no request sent yet, no dictionary
  allocated.\<close>

definition example_world :: world where
  "example_world =
     \<lparr>blobs = (\<lambda>u. if u = ''gs://bucket/cat.png'' then Inr [1, 2, 3]
                    else Inl (ExternalError ''NotFound'')),
      fetch_log = [], files = (\<lambda>p. None), predict_log = [], dicts = (\<lambda>a. []), next_addr = 0\<rparr>"

text \<open>Stand-ins for the libraries, used only to run the model on concrete inputs; the
  \<^verbatim>\<open>json\<close> module is the model above. The image file of the stand-in PIL is the EXIF user
  comment, a zero byte, and the pixels; every image it opens is 1024 by 1024. As PIL does,
  it picks the file format by the extension of the name: a PNG or JPEG file carries the EXIF
  data it is given, a BMP file has no place for them and is written without, and a name with
  another extension is refused. The stand-in service answers a request with as many inline
  predictions as \<^verbatim>\<open>sampleCount\<close> asks for.\<close>

definition endswith :: "string \<Rightarrow> string \<Rightarrow> bool" where
  "endswith s suffix = (drop (length s - length suffix) s = suffix)"

definition example_pil_open :: "bytes \<Rightarrow> py_error + pil_image" where
  "example_pil_open b =
     Inr \<lparr>pil_size = (1024, 1024),
          pil_exif = (\<lambda>t. if t = 0x9286 \<and> takeWhile (\<lambda>x. x \<noteq> 0) b \<noteq> []
                           then Some (map (\<lambda>x. char_of (unat x)) (takeWhile (\<lambda>x. x \<noteq> 0) b))
                           else None),
          pil_pixels = drop 1 (dropWhile (\<lambda>x. x \<noteq> 0) b)\<rparr>"

definition example_pil_encode ::
  "string \<Rightarrow> pil_image \<Rightarrow> (nat \<Rightarrow> string option) \<Rightarrow> py_error + bytes" where
  "example_pil_encode location p ex =
     (if endswith location ''.png'' \<or> endswith location ''.jpg''
      then Inr ((case ex 0x9286 of None \<Rightarrow> [] | Some s \<Rightarrow> map (\<lambda>c. of_nat (of_char c)) s)
                @ 0 # pil_pixels p)
      else if endswith location ''.bmp'' then Inr (0 # pil_pixels p)
      else Inl (ValueError ''unknown file extension''))"

definition example_predict :: "pyval list \<Rightarrow> pydict \<Rightarrow> py_error + pyval list" where
  "example_predict instances parameters =
     (case map_of parameters ''sampleCount'' of
        Some (PInt n) \<Rightarrow> Inr (replicate (nat n) (PDict [(''bytesBase64Encoded'', PStr ''cGl4ZWxz'')]))
      | _ \<Rightarrow> Inr [])"

definition example_lib :: lib where
  "example_lib =
     \<lparr>b64encode = (\<lambda>b. map (\<lambda>x. char_of (unat x)) b),
      b64decode = (\<lambda>s. Inr (map (\<lambda>c. of_nat (of_char c)) s)),
      sha1_hexdigest = (\<lambda>b. str_nat (length b)),
      json_dumps = json_encode,
      json_loads = json_decode,
      urlparse = (\<lambda>s. ([], [])),
      requests_get = (\<lambda>u. Inl (ExternalError ''ConnectionError'')),
      int_of_str = (\<lambda>s. Inl (ValueError ''invalid literal for int()'')),
      pil_available = True,
      pil_open = example_pil_open,
      pil_encode = example_pil_encode,
      predict = example_predict\<rparr>"

text \<open>An inline image that has been decoded already, of the given size, and the same image
  as a \<^verbatim>\<open>GeneratedImage\<close> holding the dictionary at address 0; a world where that
  dictionary records a prompt.\<close>

definition example_image :: "int \<Rightarrow> int \<Rightarrow> image" where
  "example_image wd ht =
     \<lparr>loaded_bytes = Some [1, 2, 3],
      loaded_image = Some \<lparr>pil_size = (wd, ht), pil_exif = (\<lambda>t. None), pil_pixels = [1, 2, 3]\<rparr>,
      gcs_uri = None, generation_parameters = None\<rparr>"

definition example_generated_image :: image where
  "example_generated_image = (example_image 1024 1024)\<lparr>generation_parameters := Some 0\<rparr>"

definition example_world_with_bag :: world where
  "example_world_with_bag =
     example_world\<lparr>dicts := (\<lambda>a. if a = 0 then [(''prompt'', PStr ''cat''), (''seed'', PInt 7)] else []),
                   next_addr := 1\<rparr>"

text \<open>A remote image and a remote video, as their constructors build them.\<close>

definition example_remote_image :: image where
  "example_remote_image =
     \<lparr>loaded_bytes = None, loaded_image = None, gcs_uri = Some ''gs://bucket/cat.png'',
      generation_parameters = None\<rparr>"

definition example_remote_video :: video where
  "example_remote_video =
     \<lparr>video_loaded_bytes = None, video_gcs_uri = Some ''gs://bucket/clip.mp4''\<rparr>"

text \<open>The generated image upscaled to 2048, and then the same source image upscaled again
  to 4096 in the world the first call left.\<close>

definition example_upscaled :: "(py_error + image) \<times> image \<times> world" where
  "example_upscaled =
     upscale_image example_lib example_generated_image (Some 2048) None example_world_with_bag"

definition example_upscaled_twice :: "(py_error + image) \<times> image \<times> world" where
  "example_upscaled_twice =
     (case example_upscaled of
        (r, img, w) \<Rightarrow> upscale_image example_lib img (Some 4096) None w)"

text \<open>\<^verbatim>\<open>generate_images(prompt="x", number_of_images=3)\<close> against the stand-in service.\<close>

definition example_generated :: "(py_error + image_generation_response) \<times> world" where
  "example_generated = generate_images example_lib ''x'' None 3 None None None None example_world"

text \<open>\<^verbatim>\<open>edit_image\<close> with an inline base image and a remote mask.\<close>

definition example_edited ::
  "(py_error + image_generation_response) \<times> image option \<times> image option \<times> world" where
  "example_edited =
     edit_image example_lib ''x'' (example_image 1024 1024) (Some example_remote_image) None 1
       None None None None example_world"







section \<open>Basic facts\<close>

lemma dict_keys_dict_set: "dict_keys (dict_set k v d) = insert k (dict_keys d)"
  by (induction d) (auto simp: dict_keys_def dict_set_def)

lemma map_of_dict_set: "map_of (dict_set k v d) = (map_of d)(k \<mapsto> v)"
  by (simp add: dict_set_def update_conv')

lemma dict_keys_Nil: "dict_keys [] = {}"
  by (simp add: dict_keys_def)

lemma dict_keys_Cons: "dict_keys ((k, v) # d) = insert k (dict_keys d)"
  by (simp add: dict_keys_def)

lemma dict_keys_dom: "dict_keys d = dom (map_of d)"
  by (simp add: dict_keys_def dom_map_of_conv_image_fst)

lemma Image_init_Inr:
  "Image_init b u = Inr img \<Longrightarrow>
     loaded_bytes img = b \<and> gcs_uri img = u \<and> loaded_image img = None \<and>
     generation_parameters img = None \<and> py_bool_seq b \<noteq> py_bool_seq u"
  by (auto simp: Image_init_def split: if_splits)

lemma Image_init_inv: "Image_init b u = Inr img \<Longrightarrow> image_inv img"
  by (auto simp: Image_init_def image_inv_def py_bool_seq_def split: if_splits option.splits)

lemma GeneratedImage_init_Inr:
  "GeneratedImage_init b a u = Inr img \<Longrightarrow>
     loaded_bytes img = b \<and> gcs_uri img = u \<and> loaded_image img = None \<and>
     generation_parameters img = Some a \<and> py_bool_seq b \<noteq> py_bool_seq u"
  by (auto simp: GeneratedImage_init_def dest!: Image_init_Inr split: sum.splits)

lemma GeneratedImage_init_inv: "GeneratedImage_init b a u = Inr img \<Longrightarrow> image_inv img"
  by (auto simp: GeneratedImage_init_def image_inv_def dest!: Image_init_inv split: sum.splits)

lemma Video_init_inv: "Video_init b u = Inr vid \<Longrightarrow> video_inv vid"
  by (auto simp: Video_init_def video_inv_def py_bool_seq_def split: if_splits option.splits)

lemma image_bytes_get_cached:
  "loaded_bytes img = Some b \<Longrightarrow> image_bytes_get img w = (Inr b, img, w)"
  by (simp add: image_bytes_get_def)

lemma image_bytes_get_world:
  "image_bytes_get img w = (r, img', w') \<Longrightarrow>
     predict_log w' = predict_log w \<and> dicts w' = dicts w \<and> next_addr w' = next_addr w \<and>
     files w' = files w \<and> blobs w' = blobs w"
  by (auto simp: image_bytes_get_def download_as_bytes_def split: option.splits sum.splits)

lemma image_bytes_get_image:
  "image_bytes_get img w = (r, img', w') \<Longrightarrow>
     gcs_uri img' = gcs_uri img \<and> generation_parameters img' = generation_parameters img \<and>
     loaded_image img' = loaded_image img \<and> (image_inv img \<longrightarrow> image_inv img') \<and>
     (loaded_bytes img \<noteq> None \<longrightarrow> loaded_bytes img' = loaded_bytes img)"
  by (auto simp: image_bytes_get_def download_as_bytes_def image_inv_def split: option.splits sum.splits)

lemma pil_image_get_world:
  "pil_image_get L img w = (r, img', w') \<Longrightarrow>
     predict_log w' = predict_log w \<and> dicts w' = dicts w \<and> next_addr w' = next_addr w \<and>
     files w' = files w \<and> blobs w' = blobs w"
  by (auto simp: pil_image_get_def split: option.splits sum.splits if_splits prod.splits
      dest: image_bytes_get_world)

lemma pil_image_get_image:
  "pil_image_get L img w = (r, img', w') \<Longrightarrow>
     gcs_uri img' = gcs_uri img \<and> generation_parameters img' = generation_parameters img \<and>
     (image_inv img \<longrightarrow> image_inv img') \<and>
     (loaded_bytes img \<noteq> None \<longrightarrow> loaded_bytes img' = loaded_bytes img)"
  by (auto simp: pil_image_get_def image_inv_def split: option.splits sum.splits if_splits prod.splits
      dest: image_bytes_get_image)

lemma image_size_world:
  "image_size L img w = (r, img', w') \<Longrightarrow>
     predict_log w' = predict_log w \<and> dicts w' = dicts w \<and> next_addr w' = next_addr w \<and>
     files w' = files w \<and> blobs w' = blobs w"
  by (auto simp: image_size_def split: sum.splits prod.splits dest: pil_image_get_world)

lemma image_size_image:
  "image_size L img w = (r, img', w') \<Longrightarrow>
     gcs_uri img' = gcs_uri img \<and> generation_parameters img' = generation_parameters img \<and>
     (image_inv img \<longrightarrow> image_inv img') \<and>
     (loaded_bytes img \<noteq> None \<longrightarrow> loaded_bytes img' = loaded_bytes img)"
  by (auto simp: image_size_def split: sum.splits prod.splits dest: pil_image_get_image)

lemma as_base64_string_inline:
  "image_inv img \<Longrightarrow> \<not> py_bool_seq (gcs_uri img) \<Longrightarrow>
     \<exists>b. loaded_bytes img = Some b \<and> as_base64_string L img w = (Inr (b64encode L b), img, w)"
  by (auto simp: image_inv_def as_base64_string_def image_bytes_get_def)

lemma as_base64_string_cached:
  "loaded_bytes img = Some b \<Longrightarrow> as_base64_string L img w = (Inr (b64encode L b), img, w)"
  by (simp add: as_base64_string_def image_bytes_get_cached)

lemma video_bytes_get_cached:
  "video_loaded_bytes vid = Some b \<Longrightarrow> video_bytes_get vid w = (Inr b, vid, w)"
  by (simp add: video_bytes_get_def)

lemma video_as_base64_string_cached:
  "video_loaded_bytes vid = Some b \<Longrightarrow>
     video_as_base64_string L vid w = (Inr (b64encode L b), vid, w)"
  by (simp add: video_as_base64_string_def video_bytes_get_cached)

lemma base_image_block_eq:
  "image_inv img \<Longrightarrow>
     base_image_block L (Some img) instance shared w =
       (Inr (dict_set ''image'' (PDict (serialize_for_request L img)) instance,
             record_provenance L ''base_image_uri'' ''base_image_hash'' img shared),
        Some img, w)"
  by (auto simp: base_image_block_def serialize_for_request_def record_provenance_def
        image_inv_def py_bool_seq_def as_base64_string_cached image_bytes_get_cached
      split: option.splits list.splits)

lemma mask_block_eq:
  "image_inv img \<Longrightarrow>
     mask_block L (Some img) instance shared w =
       (Inr (dict_set ''mask'' (PDict [(''image'', PDict (serialize_for_request L img))]) instance,
             record_provenance L ''mask_uri'' ''mask_hash'' img shared),
        Some img, w)"
  by (auto simp: mask_block_def serialize_for_request_def record_provenance_def
        image_inv_def py_bool_seq_def as_base64_string_cached image_bytes_get_cached
      split: option.splits list.splits)

lemma upscale_instance_eq:
  "image_inv img \<Longrightarrow>
     upscale_instance L img w =
       (Inr [(''prompt'', PStr []), (''image'', PDict (serialize_for_request L img))], img, w)"
  by (auto simp: upscale_instance_def serialize_for_request_def dict_set_def
        image_inv_def py_bool_seq_def as_base64_string_cached
      split: option.splits list.splits)

lemma embeddings_image_block_eq:
  "image_inv img \<Longrightarrow>
     embeddings_image_block L (Some img) instance w =
       (Inr (dict_set ''image'' (PDict (serialize_for_request L img)) instance), Some img, w)"
  by (auto simp: embeddings_image_block_def serialize_for_request_def
        image_inv_def py_bool_seq_def as_base64_string_cached
      split: option.splits list.splits)

lemma embeddings_video_block_eq:
  "video_inv vid \<Longrightarrow>
     embeddings_video_block L (Some vid) segment_config instance w =
       (Inr (dict_set ''video''
               (PDict (segment_entry segment_config (serialize_video_for_request L vid))) instance),
        Some vid, w)"
  by (auto simp: embeddings_video_block_def serialize_video_for_request_def segment_entry_def
        video_inv_def py_bool_seq_def video_as_base64_string_cached
      split: option.splits list.splits)

lemma get_captions_eq:
  "image_inv img \<Longrightarrow>
     get_captions L img n language out w =
       (case endpoint_predict L [PDict [(''image'', PDict (serialize_for_request L img))]]
               (case out of
                  Some u \<Rightarrow> dict_set ''storageUri'' (PStr u)
                              [(''sampleCount'', PInt n), (''language'', PStr language)]
                | None \<Rightarrow> [(''sampleCount'', PInt n), (''language'', PStr language)]) w of
          (r, w2) \<Rightarrow> (r, img, w2))"
  by (auto simp: get_captions_def serialize_for_request_def dict_set_def
        image_inv_def py_bool_seq_def as_base64_string_cached
      split: option.splits list.splits)

lemma ask_question_eq:
  "image_inv img \<Longrightarrow>
     ask_question L img question n w =
       (case endpoint_predict L
               [PDict [(''prompt'', PStr question), (''image'', PDict (serialize_for_request L img))]]
               [(''sampleCount'', PInt n)] w of
          (r, w2) \<Rightarrow> (r, img, w2))"
  by (auto simp: ask_question_def serialize_for_request_def dict_set_def
        image_inv_def py_bool_seq_def as_base64_string_cached
      split: option.splits list.splits)

lemma private_generate_images_eq:
  assumes "pred_option image_inv base_image" "pred_option image_inv mask_image"
  shows "private_generate_images L prompt negative_prompt number_of_images width height
           guidance_scale seed base_image mask_image language output_gcs_uri w =
     (case parameters_block negative_prompt number_of_images width height guidance_scale seed
             language output_gcs_uri
             (generation_shared L prompt number_of_images base_image mask_image) of
        (parameters, shared) \<Rightarrow>
          (case endpoint_predict L [PDict (generation_instance L prompt base_image mask_image)]
                  parameters w of
             (Inl e, w3) \<Rightarrow> (Inl e, base_image, mask_image, w3)
           | (Inr predictions, w3) \<Rightarrow>
               (case wrap_predictions L shared 0 predictions w3 of
                  (Inl e, w4) \<Rightarrow> (Inl e, base_image, mask_image, w4)
                | (Inr generated_images, w4) \<Rightarrow>
                    (Inr \<lparr>images = generated_images\<rparr>, base_image, mask_image, w4))))"
proof -
  have b: "base_image_block L base_image [(''prompt'', PStr prompt)]
             [(''prompt'', PStr prompt), (''number_of_images_in_batch'', PInt number_of_images)] w =
           (Inr (generation_instance L prompt base_image None,
                 generation_shared L prompt number_of_images base_image None), base_image, w)"
    using assms(1)
    by (cases base_image)
       (simp_all add: base_image_block_eq generation_instance_def generation_shared_def Let_def,
        simp add: base_image_block_def)
  have m: "mask_block L mask_image (generation_instance L prompt base_image None)
             (generation_shared L prompt number_of_images base_image None) w =
           (Inr (generation_instance L prompt base_image mask_image,
                 generation_shared L prompt number_of_images base_image mask_image), mask_image, w)"
    using assms(2)
    by (cases mask_image)
       (simp_all add: mask_block_eq generation_instance_def generation_shared_def Let_def,
        simp add: mask_block_def)
  show ?thesis
    by (simp add: private_generate_images_def Let_def b m)
qed

lemma new_dict_simps:
  "new_dict d w = (a, w') \<Longrightarrow>
     a = next_addr w \<and> next_addr w' = Suc (next_addr w) \<and> dicts w' = (dicts w)(next_addr w := d) \<and>
     predict_log w' = predict_log w \<and> fetch_log w' = fetch_log w \<and> files w' = files w \<and>
     blobs w' = blobs w"
  by (auto simp: new_dict_def)

lemma store_set_simps:
  "next_addr (store_set a k v w) = next_addr w"
  "dicts (store_set a k v w) = (dicts w)(a := dict_set k v (dicts w a))"
  "predict_log (store_set a k v w) = predict_log w"
  "fetch_log (store_set a k v w) = fetch_log w"
  "files (store_set a k v w) = files w"
  "blobs (store_set a k v w) = blobs w"
  by (simp_all add: store_set_def)

lemma decode_prediction_params:
  "decode_prediction L p a = Inr g \<Longrightarrow> generation_parameters g = Some a \<and> image_inv g"
  by (auto simp: decode_prediction_def Let_def
      split: pyval.splits sum.splits if_splits
      dest: GeneratedImage_init_Inr GeneratedImage_init_inv)

lemma wrap_predictions_ok:
  "wrap_predictions L shared idx predictions w = (Inr gs, w') \<Longrightarrow>
     length gs = length predictions \<and>
     next_addr w' = next_addr w + length predictions \<and>
     (\<forall>i<length predictions.
        decode_prediction L (predictions ! i) (next_addr w + i) = Inr (gs ! i) \<and>
        dicts w' (next_addr w + i) =
          dict_set ''index_of_image_in_batch'' (PInt (int (idx + i))) shared) \<and>
     (\<forall>a<next_addr w. dicts w' a = dicts w a) \<and>
     predict_log w' = predict_log w \<and> fetch_log w' = fetch_log w \<and> files w' = files w \<and>
     blobs w' = blobs w"
proof (induction predictions arbitrary: idx w gs w')
  case Nil
  then show ?case by simp
next
  case (Cons p ps)
  obtain a w1 where nd: "new_dict shared w = (a, w1)" by (cases "new_dict shared w")
  note n = new_dict_simps[OF nd]
  define w2 where "w2 = store_set a ''index_of_image_in_batch'' (PInt (int idx)) w1"
  from Cons.prems nd obtain g gs' where
    dg: "decode_prediction L p a = Inr g" and
    rec: "wrap_predictions L shared (Suc idx) ps w2 = (Inr gs', w')" and
    gs: "gs = g # gs'"
    by (auto simp: w2_def Let_def split: sum.splits prod.splits)
  note ih = Cons.IH[OF rec]
  have w2: "next_addr w2 = Suc (next_addr w)"
    "dicts w2 = (dicts w)(next_addr w := dict_set ''index_of_image_in_batch'' (PInt (int idx)) shared)"
    using n by (simp_all add: w2_def store_set_simps)
  have old: "\<forall>a<next_addr w. dicts w' a = dicts w a"
    using ih w2 by simp
  have first: "dicts w' (next_addr w) = dict_set ''index_of_image_in_batch'' (PInt (int idx)) shared"
    using ih w2 by simp
  have items: "\<forall>i<length (p # ps).
        decode_prediction L ((p # ps) ! i) (next_addr w + i) = Inr (gs ! i) \<and>
        dicts w' (next_addr w + i) =
          dict_set ''index_of_image_in_batch'' (PInt (int (idx + i))) shared"
  proof (intro allI impI)
    fix i assume i: "i < length (p # ps)"
    show "decode_prediction L ((p # ps) ! i) (next_addr w + i) = Inr (gs ! i) \<and>
        dicts w' (next_addr w + i) =
          dict_set ''index_of_image_in_batch'' (PInt (int (idx + i))) shared"
    proof (cases i)
      case 0
      then show ?thesis using dg n gs first by simp
    next
      case (Suc j)
      with i have "j < length ps" by simp
      with ih have "decode_prediction L (ps ! j) (next_addr w2 + j) = Inr (gs' ! j) \<and>
        dicts w' (next_addr w2 + j) =
          dict_set ''index_of_image_in_batch'' (PInt (int (Suc idx + j))) shared" by blast
      then show ?thesis using Suc gs w2 by simp
    qed
  qed
  show ?case
    using ih w2 old items gs n by (simp add: w2_def store_set_simps)
qed

lemma read_image_bytes_cached:
  "loaded_bytes img = Some b \<Longrightarrow> read_image_bytes n img w = (replicate n (Inr b), img, w)"
  by (induction n) (simp_all add: image_bytes_get_cached)

lemma read_video_bytes_cached:
  "video_loaded_bytes vid = Some b \<Longrightarrow> read_video_bytes n vid w = (replicate n (Inr b), vid, w)"
  by (induction n) (simp_all add: video_bytes_get_cached)

lemma image_bytes_get_first:
  "loaded_bytes img = None \<Longrightarrow> gcs_uri img = Some uri \<Longrightarrow> blobs w uri = Inr b \<Longrightarrow>
   image_bytes_get img w = (Inr b, img\<lparr>loaded_bytes := Some b\<rparr>, w\<lparr>fetch_log := fetch_log w @ [uri]\<rparr>)"
  by (simp add: image_bytes_get_def download_as_bytes_def)

lemma video_bytes_get_first:
  "video_loaded_bytes vid = None \<Longrightarrow> video_gcs_uri vid = Some uri \<Longrightarrow> blobs w uri = Inr b \<Longrightarrow>
   video_bytes_get vid w = (Inr b, vid\<lparr>video_loaded_bytes := Some b\<rparr>, w\<lparr>fetch_log := fetch_log w @ [uri]\<rparr>)"
  by (simp add: video_bytes_get_def download_as_bytes_def)

lemma Video_init_Inr:
  "Video_init b u = Inr vid \<Longrightarrow>
     video_loaded_bytes vid = b \<and> video_gcs_uri vid = u \<and> py_bool_seq b \<noteq> py_bool_seq u"
  by (auto simp: Video_init_def split: if_splits)


lemma endpoint_predict_world:
  "endpoint_predict L i p w = (r, w') \<Longrightarrow>
     r = predict L i p \<and> w' = w\<lparr>predict_log := predict_log w @ [(i, p)]\<rparr>"
  by (auto simp: endpoint_predict_def)

lemma get_embeddings_missing:
  "image_arg = None \<Longrightarrow> video_arg = None \<Longrightarrow> \<not> py_bool_seq contextual_text \<Longrightarrow>
     get_embeddings L image_arg video_arg contextual_text dimension segment_config w =
       (Inl missing_input, image_arg, video_arg, w)"
  by (simp add: get_embeddings_def)

lemma get_embeddings_eq:
  assumes "pred_option image_inv image_arg" "pred_option video_inv video_arg"
    and "\<not> (image_arg = None \<and> video_arg = None \<and> \<not> py_bool_seq contextual_text)"
  shows "get_embeddings L image_arg video_arg contextual_text dimension segment_config w =
     (case predict L
             [PDict (embeddings_instance L image_arg video_arg contextual_text segment_config)]
             (embeddings_parameters dimension) of
        Inl e \<Rightarrow> Inl e
      | Inr predictions \<Rightarrow> embeddings_response predictions,
      image_arg, video_arg,
      w\<lparr>predict_log := predict_log w @
          [([PDict (embeddings_instance L image_arg video_arg contextual_text segment_config)],
            embeddings_parameters dimension)]\<rparr>)"
proof -
  have i: "embeddings_image_block L image_arg [] w =
             (Inr (embeddings_instance L image_arg None None None), image_arg, w)"
    using assms(1)
    by (cases image_arg)
       (simp_all add: embeddings_image_block_eq embeddings_instance_def Let_def,
        simp add: embeddings_image_block_def)
  have v: "embeddings_video_block L video_arg segment_config
             (embeddings_instance L image_arg None None None) w =
             (Inr (embeddings_instance L image_arg video_arg None segment_config), video_arg, w)"
    using assms(2)
    by (cases video_arg)
       (simp_all add: embeddings_video_block_eq embeddings_instance_def Let_def,
        simp add: embeddings_video_block_def)
  have t: "(case contextual_text of
              Some (c # cs) \<Rightarrow>
                dict_set ''text'' (PStr (c # cs))
                  (embeddings_instance L image_arg video_arg None segment_config)
            | _ \<Rightarrow> embeddings_instance L image_arg video_arg None segment_config) =
           embeddings_instance L image_arg video_arg contextual_text segment_config"
    by (simp add: embeddings_instance_def Let_def split: option.splits list.splits)
  show ?thesis
    unfolding get_embeddings_def
    by (subst if_not_P[OF assms(3)])
       (simp add: i v t Let_def endpoint_predict_def split: sum.splits)
qed


lemma truthy_cases:
  obtains "x = None" | "x = Some []" | c cs where "x = Some (c # cs)"
proof (cases x)
  case None
  then show ?thesis using that by simp
next
  case (Some a)
  then show ?thesis using that by (cases a) auto
qed

lemma parameters_block_eq:
  "parameters_block negative_prompt number_of_images width height guidance_scale seed language
     output_gcs_uri shared =
   (opt_set ''storageUri'' (map_option PStr output_gcs_uri)
      (opt_set ''language'' (map_option PStr language)
         (opt_set ''guidanceScale'' (map_option PFloat guidance_scale)
            (opt_set ''seed'' (map_option PInt seed)
               (opt_set ''negativePrompt'' (map_option PStr (truthy negative_prompt))
                  (dict_set ''sampleCount'' (PInt number_of_images)
                     (size_parameters width height)))))),
    opt_set ''storage_uri'' (map_option PStr output_gcs_uri)
      (opt_set ''language'' (map_option PStr language)
         (opt_set ''guidance_scale'' (map_option PFloat guidance_scale)
            (opt_set ''seed'' (map_option PInt seed)
               (opt_set ''negative_prompt'' (map_option PStr (truthy negative_prompt)) shared)))))"
  unfolding parameters_block_def Let_def size_parameters_def[symmetric]
  by (cases negative_prompt rule: truthy_cases; cases seed; cases guidance_scale; cases language;
      cases output_gcs_uri; simp add: opt_set_def truthy_def)

lemma map_of_opt_set:
  "map_of (opt_set k x d) k' = (if k' = k \<and> x \<noteq> None then x else map_of d k')"
  by (cases x) (simp_all add: opt_set_def map_of_dict_set)

lemma map_of_size_parameters:
  "k \<notin> {''sampleImageSize'', ''aspectRatio''} \<Longrightarrow> map_of (size_parameters width height) k = None"
  by (simp add: size_parameters_def map_of_dict_set split: option.splits)

lemma truthy_None: "(truthy x = None) = (\<not> py_bool_seq x)"
  by (cases x rule: truthy_cases) (simp_all add: truthy_def py_bool_seq_def)

lemma truthy_Some: "py_bool_seq x \<Longrightarrow> truthy x = x"
  by (cases x rule: truthy_cases) (simp_all add: truthy_def py_bool_seq_def)

lemma parameters_block_values:
  "map_of (fst (parameters_block negative_prompt number_of_images width height guidance_scale
                  seed language output_gcs_uri shared)) ''negativePrompt'' =
     (if py_bool_seq negative_prompt then map_option PStr negative_prompt else None)"
  "map_of (fst (parameters_block negative_prompt number_of_images width height guidance_scale
                  seed language output_gcs_uri shared)) ''seed'' = map_option PInt seed"
  "map_of (fst (parameters_block negative_prompt number_of_images width height guidance_scale
                  seed language output_gcs_uri shared)) ''guidanceScale'' =
     map_option PFloat guidance_scale"
  "map_of (fst (parameters_block negative_prompt number_of_images width height guidance_scale
                  seed language output_gcs_uri shared)) ''language'' = map_option PStr language"
  "map_of (fst (parameters_block negative_prompt number_of_images width height guidance_scale
                  seed language output_gcs_uri shared)) ''storageUri'' =
     map_option PStr output_gcs_uri"
  "map_of (fst (parameters_block negative_prompt number_of_images width height guidance_scale
                  seed language output_gcs_uri shared)) ''sampleCount'' =
     Some (PInt number_of_images)"
  by (simp_all add: parameters_block_eq map_of_opt_set map_of_dict_set map_of_size_parameters
        truthy_None truthy_Some)

lemma parameters_block_shared:
  "k \<notin> {''negative_prompt'', ''seed'', ''guidance_scale'', ''language'', ''storage_uri''} \<Longrightarrow>
     map_of (snd (parameters_block negative_prompt number_of_images width height guidance_scale
                    seed language output_gcs_uri shared)) k = map_of shared k"
  by (simp add: parameters_block_eq map_of_opt_set)

lemma embeddings_parameters_keys:
  "dict_keys (embeddings_parameters dimension) =
     (if py_bool_int dimension then {''dimension''} else {})"
  by (auto simp: embeddings_parameters_def dict_keys_dict_set dict_keys_Nil py_bool_int_def
      split: option.splits)


lemma wrap_predictions_log:
  "predict_log (snd (wrap_predictions L shared idx predictions w)) = predict_log w \<and>
   fetch_log (snd (wrap_predictions L shared idx predictions w)) = fetch_log w"
proof (induction predictions arbitrary: idx w)
  case Nil
  then show ?case by simp
next
  case (Cons p ps)
  show ?case
    using Cons.IH[of "Suc idx"
        "store_set (next_addr w) ''index_of_image_in_batch'' (PInt (int idx)) (snd (new_dict shared w))"]
    by (auto simp: new_dict_def store_set_def Let_def split: sum.splits prod.splits)
qed

lemma wrap_predictions_logD:
  "wrap_predictions L shared idx predictions w = (r, w') \<Longrightarrow>
     predict_log w' = predict_log w \<and> fetch_log w' = fetch_log w"
  using wrap_predictions_log[of L shared idx predictions w] by simp

lemma private_generate_images_request:
  assumes "pred_option image_inv base_image" "pred_option image_inv mask_image"
  shows "predict_log (snd (snd (snd (private_generate_images L prompt negative_prompt
           number_of_images width height guidance_scale seed base_image mask_image language
           output_gcs_uri w)))) =
         predict_log w @
           [([PDict (generation_instance L prompt base_image mask_image)],
             fst (parameters_block negative_prompt number_of_images width height guidance_scale
                    seed language output_gcs_uri
                    (generation_shared L prompt number_of_images base_image mask_image)))]"
proof -
  obtain parameters shared where pb: "parameters_block negative_prompt number_of_images width
      height guidance_scale seed language output_gcs_uri
      (generation_shared L prompt number_of_images base_image mask_image) = (parameters, shared)"
    by (cases "parameters_block negative_prompt number_of_images width
      height guidance_scale seed language output_gcs_uri
      (generation_shared L prompt number_of_images base_image mask_image)")
  show ?thesis
    unfolding private_generate_images_eq[OF assms] pb
    by (auto simp: endpoint_predict_def split: sum.splits prod.splits
        dest!: wrap_predictions_logD)
qed

lemma generate_images_world:
  "snd (generate_images L prompt negative_prompt number_of_images guidance_scale language seed
          output_gcs_uri w) =
   snd (snd (snd (private_generate_images L prompt negative_prompt number_of_images None None
          guidance_scale seed None None language output_gcs_uri w)))"
  by (simp add: generate_images_def split: prod.splits)

lemma get_embeddings_request:
  assumes "pred_option image_inv image_arg" "pred_option video_inv video_arg"
    and "\<not> (image_arg = None \<and> video_arg = None \<and> \<not> py_bool_seq contextual_text)"
  shows "predict_log (snd (snd (snd (get_embeddings L image_arg video_arg contextual_text
           dimension segment_config w)))) =
         predict_log w @
           [([PDict (embeddings_instance L image_arg video_arg contextual_text segment_config)],
             embeddings_parameters dimension)]"
  by (simp add: get_embeddings_eq[OF assms])

lemma serialize_for_request_size:
  assumes "image_inv img" "image_size L img w = (r, img1, w1)"
  shows "serialize_for_request L img1 = serialize_for_request L img"
proof -
  from image_size_image[OF assms(2)] have g: "gcs_uri img1 = gcs_uri img"
    and l: "loaded_bytes img \<noteq> None \<longrightarrow> loaded_bytes img1 = loaded_bytes img" by simp_all
  show ?thesis
  proof (cases "py_bool_seq (gcs_uri img)")
    case True
    then show ?thesis using g
      by (auto simp: serialize_for_request_def py_bool_seq_def split: option.splits list.splits)
  next
    case False
    with assms(1) have "loaded_bytes img \<noteq> None" by (simp add: image_inv_def)
    with l g show ?thesis
      by (auto simp: serialize_for_request_def split: option.splits list.splits)
  qed
qed

lemma upscale_image_source_error:
  "image_size L img w = (Inr (sx, sy), img1, w1) \<Longrightarrow> sx \<noteq> 1024 \<Longrightarrow> sy \<noteq> 1024 \<Longrightarrow>
     upscale_image L img new_size out w = (Inl unsupported_source_size, img1, w1)"
  by (simp add: upscale_image_def)

lemma upscale_image_target_error:
  "image_size L img w = (Inr (sx, sy), img1, w1) \<Longrightarrow> sx = 1024 \<or> sy = 1024 \<Longrightarrow>
     new_size \<noteq> Some 2048 \<Longrightarrow> new_size \<noteq> Some 4096 \<Longrightarrow>
     upscale_image L img new_size out w = (Inl unsupported_target_size, img1, w1)"
  by (cases new_size) (auto simp: upscale_image_def supported_upscaling_sizes_def)

lemma upscale_image_eq:
  assumes "image_inv img" "image_size L img w = (Inr (sx, sy), img1, w1)" "sx = 1024 \<or> sy = 1024"
    "n = 2048 \<or> n = 4096"
  shows "upscale_image L img (Some n) out w =
     (case predict L [PDict [(''prompt'', PStr []), (''image'', PDict (serialize_for_request L img))]]
             (upscale_parameters n out) of
        Inl e \<Rightarrow>
          (Inl e, img1,
           w1\<lparr>predict_log := predict_log w1 @
               [([PDict [(''prompt'', PStr []), (''image'', PDict (serialize_for_request L img))]],
                 upscale_parameters n out)]\<rparr>)
      | Inr predictions \<Rightarrow>
          (case upscale_result L img1 n predictions
                  (w1\<lparr>predict_log := predict_log w1 @
                      [([PDict [(''prompt'', PStr []),
                                (''image'', PDict (serialize_for_request L img))]],
                        upscale_parameters n out)]\<rparr>) of
             (r, w4) \<Rightarrow> (r, img1, w4)))"
proof -
  from image_size_image[OF assms(2)] assms(1) have inv1: "image_inv img1" by simp
  have s: "serialize_for_request L img1 = serialize_for_request L img"
    using serialize_for_request_size[OF assms(1,2)] .
  show ?thesis
    using assms(2,3,4)
    by (auto simp: upscale_image_def supported_upscaling_sizes_def upscale_instance_eq[OF inv1] s
          endpoint_predict_def split: sum.splits prod.splits)
qed

lemma upscale_result_world:
  "upscale_result L img n predictions w = (r, w') \<Longrightarrow>
     predict_log w' = predict_log w \<and> fetch_log w' = fetch_log w"
  by (auto simp: upscale_result_def new_dict_def store_set_def Let_def
      split: list.splits option.splits prod.splits)

lemma upscale_image_request:
  assumes "image_inv img" "image_size L img w = (Inr (sx, sy), img1, w1)" "sx = 1024 \<or> sy = 1024"
    "n = 2048 \<or> n = 4096"
  shows "predict_log (snd (snd (upscale_image L img (Some n) out w))) =
     predict_log w @
       [([PDict [(''prompt'', PStr []), (''image'', PDict (serialize_for_request L img))]],
         upscale_parameters n out)]"
proof -
  from image_size_world[OF assms(2)] have "predict_log w1 = predict_log w" by simp
  then show ?thesis
    unfolding upscale_image_eq[OF assms]
    by (auto split: sum.splits prod.splits dest!: upscale_result_world)
qed

lemma get_captions_request:
  "image_inv img \<Longrightarrow>
     predict_log (snd (snd (get_captions L img n language out w))) =
       predict_log w @
         [([PDict [(''image'', PDict (serialize_for_request L img))]],
           (case out of
              Some u \<Rightarrow> dict_set ''storageUri'' (PStr u)
                          [(''sampleCount'', PInt n), (''language'', PStr language)]
            | None \<Rightarrow> [(''sampleCount'', PInt n), (''language'', PStr language)]))]"
  by (simp add: get_captions_eq endpoint_predict_def)

lemma ask_question_request:
  "image_inv img \<Longrightarrow>
     predict_log (snd (snd (ask_question L img question n w))) =
       predict_log w @
         [([PDict [(''prompt'', PStr question), (''image'', PDict (serialize_for_request L img))]],
           [(''sampleCount'', PInt n)])]"
  by (simp add: ask_question_eq endpoint_predict_def)

lemma serialize_for_request_cases:
  assumes "image_inv img"
  shows "(\<exists>u. gcs_uri img = Some u \<and> u \<noteq> [] \<and> serialize_for_request L img = [(''gcsUri'', PStr u)])
       \<or> (\<not> py_bool_seq (gcs_uri img) \<and>
          (\<exists>b. loaded_bytes img = Some b \<and>
               serialize_for_request L img = [(''bytesBase64Encoded'', PStr (b64encode L b))]))"
  using assms
  by (auto simp: image_inv_def serialize_for_request_def py_bool_seq_def
      split: option.splits list.splits)

lemma serialize_video_for_request_cases:
  assumes "video_inv vid"
  shows "(\<exists>u. video_gcs_uri vid = Some u \<and> u \<noteq> [] \<and>
            serialize_video_for_request L vid = [(''gcsUri'', PStr u)])
       \<or> (\<not> py_bool_seq (video_gcs_uri vid) \<and>
          (\<exists>b. video_loaded_bytes vid = Some b \<and>
               serialize_video_for_request L vid = [(''bytesBase64Encoded'', PStr (b64encode L b))]))"
  using assms
  by (auto simp: video_inv_def serialize_video_for_request_def py_bool_seq_def
      split: option.splits list.splits)

lemma one_media_key_image: "image_inv img \<Longrightarrow> one_media_key (serialize_for_request L img)"
  using serialize_for_request_cases[of img L]
  by (auto simp: one_media_key_def dict_keys_Cons dict_keys_Nil)

lemma one_media_key_video:
  "video_inv vid \<Longrightarrow> one_media_key (segment_entry cfg (serialize_video_for_request L vid))"
  using serialize_video_for_request_cases[of vid L]
  by (cases cfg)
     (auto simp: one_media_key_def segment_entry_def dict_keys_dict_set dict_keys_Cons dict_keys_Nil)

lemma example_image_inv: "image_inv (example_image wd ht)"
  by (simp add: image_inv_def example_image_def)

lemma example_remote_image_inv: "image_inv example_remote_image"
  by (simp add: image_inv_def example_remote_image_def py_bool_seq_def)

lemma example_remote_video_inv: "video_inv example_remote_video"
  by (simp add: video_inv_def example_remote_video_def py_bool_seq_def)

lemma example_image_size:
  "image_size L (example_image wd ht) w = (Inr (wd, ht), example_image wd ht, w)"
  by (simp add: image_size_def pil_image_get_def example_image_def)

lemma upscale_instance_frame:
  "upscale_instance L img w = (r, img', w') \<Longrightarrow>
     dicts w' = dicts w \<and> next_addr w' = next_addr w \<and> predict_log w' = predict_log w \<and>
     generation_parameters img' = generation_parameters img"
  by (auto simp: upscale_instance_def as_base64_string_def Let_def
      split: option.splits list.splits sum.splits prod.splits
      dest: image_bytes_get_world image_bytes_get_image)

lemma upscale_image_InrD:
  "upscale_image L img new_size out w = (Inr g, img', w') \<Longrightarrow>
     \<exists>sx sy img1 w1 n inst w2 ps.
       image_size L img w = (Inr (sx, sy), img1, w1) \<and> new_size = Some n \<and>
       upscale_instance L img1 w1 = (Inr inst, img', w2) \<and>
       upscale_result L img' n ps
         (w2\<lparr>predict_log := predict_log w2 @ [([PDict inst], upscale_parameters n out)]\<rparr>) =
         (Inr g, w')"
  by (auto simp: upscale_image_def endpoint_predict_def
      split: prod.splits sum.splits if_splits option.splits)

lemma example_upscaled_eq:
  "example_upscaled =
     (Inr \<lparr>loaded_bytes = Some (map (\<lambda>c. of_nat (of_char c)) ''cGl4ZWxz''), loaded_image = None,
           gcs_uri = None, generation_parameters = Some 0\<rparr>,
      example_generated_image,
      example_world_with_bag
        \<lparr>predict_log :=
           [([PDict [(''prompt'', PStr []),
                     (''image'', PDict [(''bytesBase64Encoded'', PStr (b64encode example_lib [1, 2, 3]))])]],
             upscale_parameters 2048 None)],
         dicts := (dicts example_world_with_bag)
           (0 := [(''prompt'', PStr ''cat''), (''seed'', PInt 7), (''upscaled_image_size'', PInt 2048)])\<rparr>)"
  by (simp add: example_upscaled_def upscale_image_def image_size_def pil_image_get_def example_generated_image_def
        example_image_def supported_upscaling_sizes_def upscale_instance_def
        as_base64_string_def image_bytes_get_def endpoint_predict_def upscale_result_def
        example_lib_def example_predict_def upscale_parameters_def dict_set_def
        store_set_def example_world_with_bag_def example_world_def decode_prediction_def
        dict_get_def GeneratedImage_init_def Image_init_def py_bool_seq_def Let_def)


lemma example_upscaled_twice_eq:
  "example_upscaled_twice =
     (Inr \<lparr>loaded_bytes = Some (map (\<lambda>c. of_nat (of_char c)) ''cGl4ZWxz''), loaded_image = None,
           gcs_uri = None, generation_parameters = Some 0\<rparr>,
      example_generated_image,
      example_world_with_bag
        \<lparr>predict_log :=
           [([PDict [(''prompt'', PStr []),
                     (''image'', PDict [(''bytesBase64Encoded'', PStr (b64encode example_lib [1, 2, 3]))])]],
             upscale_parameters 2048 None),
            ([PDict [(''prompt'', PStr []),
                     (''image'', PDict [(''bytesBase64Encoded'', PStr (b64encode example_lib [1, 2, 3]))])]],
             upscale_parameters 4096 None)],
         dicts := (dicts example_world_with_bag)
           (0 := [(''prompt'', PStr ''cat''), (''seed'', PInt 7), (''upscaled_image_size'', PInt 4096)])\<rparr>)"
  by (simp add: example_upscaled_twice_def example_upscaled_eq
        upscale_image_def image_size_def pil_image_get_def example_generated_image_def
        example_image_def supported_upscaling_sizes_def upscale_instance_def
        as_base64_string_def image_bytes_get_def endpoint_predict_def upscale_result_def
        example_lib_def example_predict_def upscale_parameters_def dict_set_def
        store_set_def example_world_with_bag_def example_world_def decode_prediction_def
        dict_get_def GeneratedImage_init_def Image_init_def py_bool_seq_def Let_def)

lemma private_generate_images_InrD:
  assumes "pred_option image_inv base_image" "pred_option image_inv mask_image"
    and "private_generate_images L prompt negative_prompt number_of_images width height
           guidance_scale seed base_image mask_image language output_gcs_uri w = (Inr r, bi, mi, w')"
  shows "\<exists>predictions.
     predict L [PDict (generation_instance L prompt base_image mask_image)]
       (fst (parameters_block negative_prompt number_of_images width height guidance_scale seed
               language output_gcs_uri
               (generation_shared L prompt number_of_images base_image mask_image))) =
       Inr predictions \<and>
     wrap_predictions L
       (snd (parameters_block negative_prompt number_of_images width height guidance_scale seed
               language output_gcs_uri
               (generation_shared L prompt number_of_images base_image mask_image)))
       0 predictions
       (w\<lparr>predict_log := predict_log w @
           [([PDict (generation_instance L prompt base_image mask_image)],
             fst (parameters_block negative_prompt number_of_images width height guidance_scale
                    seed language output_gcs_uri
                    (generation_shared L prompt number_of_images base_image mask_image)))]\<rparr>) =
       (Inr (images r), w') \<and> bi = base_image \<and> mi = mask_image"
  using assms(3) unfolding private_generate_images_eq[OF assms(1,2)]
  by (auto simp: endpoint_predict_def split: prod.splits sum.splits)

lemma decode_prediction_isl:
  "isl (decode_prediction L p a) = isl (decode_prediction L p a')"
  by (auto simp: decode_prediction_def GeneratedImage_init_def Let_def
      split: pyval.splits sum.splits if_splits)

lemma prediction_ok_decode:
  "prediction_ok L p \<Longrightarrow> \<exists>g. decode_prediction L p a = Inr g"
  using decode_prediction_isl[of L p a 0]
  by (cases "decode_prediction L p a"; cases "decode_prediction L p 0")
     (simp_all add: prediction_ok_def)

lemma wrap_predictions_succeeds:
  "\<forall>p\<in>set predictions. prediction_ok L p \<Longrightarrow>
     \<exists>gs w'. wrap_predictions L shared idx predictions w = (Inr gs, w')"
proof (induction predictions arbitrary: idx w)
  case Nil
  then show ?case by simp
next
  case (Cons p ps)
  from Cons.prems have "prediction_ok L p" by simp
  from prediction_ok_decode[OF this] obtain g where
    g: "decode_prediction L p (next_addr w) = Inr g" by blast
  from Cons.prems have "\<forall>p\<in>set ps. prediction_ok L p" by simp
  from Cons.IH[OF this] obtain gs w' where
    "wrap_predictions L shared (Suc idx) ps
       (store_set (next_addr w) ''index_of_image_in_batch'' (PInt (int idx))
          (snd (new_dict shared w))) = (Inr gs, w')"
    by blast
  then show ?case
    using g by (simp add: new_dict_def Let_def)
qed


lemma map_of_record_provenance_other:
  "k \<noteq> uri_key \<Longrightarrow> k \<noteq> hash_key \<Longrightarrow>
     map_of (record_provenance L uri_key hash_key img shared) k = map_of shared k"
  by (simp add: record_provenance_def map_of_dict_set split: option.splits list.splits)

lemma generation_shared_basic:
  "map_of (generation_shared L prompt number_of_images base_image mask_image) ''prompt'' =
     Some (PStr prompt)"
  "map_of (generation_shared L prompt number_of_images base_image mask_image)
     ''number_of_images_in_batch'' = Some (PInt number_of_images)"
  by (cases base_image; cases mask_image;
      simp add: generation_shared_def Let_def map_of_record_provenance_other)+

lemma list3_nth: "length xs = 3 \<Longrightarrow> xs = [xs ! 0, xs ! 1, xs ! 2]"
  by (auto simp: numeral_3_eq_3 length_Suc_conv)

lemma map_of_record_provenance_remote:
  "gcs_uri img = Some u \<Longrightarrow> u \<noteq> [] \<Longrightarrow> uri_key \<noteq> hash_key \<Longrightarrow>
     map_of (record_provenance L uri_key hash_key img shared) uri_key = Some (PStr u) \<and>
     map_of (record_provenance L uri_key hash_key img shared) hash_key = map_of shared hash_key"
  by (cases u) (simp_all add: record_provenance_def map_of_dict_set)

lemma map_of_record_provenance_inline:
  "\<not> py_bool_seq (gcs_uri img) \<Longrightarrow> loaded_bytes img = Some b \<Longrightarrow> uri_key \<noteq> hash_key \<Longrightarrow>
     map_of (record_provenance L uri_key hash_key img shared) hash_key =
       Some (PStr (sha1_hexdigest L b)) \<and>
     map_of (record_provenance L uri_key hash_key img shared) uri_key = map_of shared uri_key"
  by (auto simp: record_provenance_def map_of_dict_set py_bool_seq_def
      split: option.splits list.splits)

lemma generation_shared_base:
  "map_of (generation_shared L prompt n base_image mask_image) ''base_image_uri'' =
     (case base_image of
        None \<Rightarrow> None
      | Some b \<Rightarrow> map_of (record_provenance L ''base_image_uri'' ''base_image_hash'' b []) ''base_image_uri'')"
  "map_of (generation_shared L prompt n base_image mask_image) ''base_image_hash'' =
     (case base_image of
        None \<Rightarrow> None
      | Some b \<Rightarrow> map_of (record_provenance L ''base_image_uri'' ''base_image_hash'' b []) ''base_image_hash'')"
  by (cases base_image; cases mask_image;
      simp add: generation_shared_def Let_def map_of_record_provenance_other;
      simp add: record_provenance_def map_of_dict_set split: option.splits list.splits)+

lemma generation_shared_mask:
  "map_of (generation_shared L prompt n base_image mask_image) ''mask_uri'' =
     (case mask_image of
        None \<Rightarrow> None
      | Some m \<Rightarrow> map_of (record_provenance L ''mask_uri'' ''mask_hash'' m []) ''mask_uri'')"
  "map_of (generation_shared L prompt n base_image mask_image) ''mask_hash'' =
     (case mask_image of
        None \<Rightarrow> None
      | Some m \<Rightarrow> map_of (record_provenance L ''mask_uri'' ''mask_hash'' m []) ''mask_hash'')"
  by (cases base_image; cases mask_image;
      simp add: generation_shared_def Let_def map_of_record_provenance_other;
      simp add: record_provenance_def map_of_dict_set split: option.splits list.splits)+


lemma generated_bag_shape:
  assumes "pred_option image_inv base_image" "pred_option image_inv mask_image"
    and "private_generate_images L prompt negative_prompt number_of_images width height
           guidance_scale seed base_image mask_image language output_gcs_uri w = (Inr r, bi, mi, w')"
  shows "\<forall>g\<in>set (images r). \<exists>i.
     generation_parameters_get w' g =
       dict_set ''index_of_image_in_batch'' (PInt (int i))
         (snd (parameters_block negative_prompt number_of_images width height guidance_scale seed
                 language output_gcs_uri
                 (generation_shared L prompt number_of_images base_image mask_image)))"
proof
  fix g assume "g \<in> set (images r)"
  then obtain i where i: "i < length (images r)" "g = images r ! i"
    by (auto simp: in_set_conv_nth)
  from private_generate_images_InrD[OF assms] obtain predictions w3 where
    wp: "wrap_predictions L
       (snd (parameters_block negative_prompt number_of_images width height guidance_scale seed
               language output_gcs_uri
               (generation_shared L prompt number_of_images base_image mask_image)))
       0 predictions w3 = (Inr (images r), w')"
    by blast
  note ok = wrap_predictions_ok[OF wp]
  from ok i have d: "decode_prediction L (predictions ! i) (next_addr w3 + i) = Inr g"
    and b: "dicts w' (next_addr w3 + i) =
      dict_set ''index_of_image_in_batch'' (PInt (int i))
        (snd (parameters_block negative_prompt number_of_images width height guidance_scale seed
                language output_gcs_uri
                (generation_shared L prompt number_of_images base_image mask_image)))"
    by simp_all
  from decode_prediction_params[OF d] b
  show "\<exists>i. generation_parameters_get w' g =
       dict_set ''index_of_image_in_batch'' (PInt (int i))
         (snd (parameters_block negative_prompt number_of_images width height guidance_scale seed
                 language output_gcs_uri
                 (generation_shared L prompt number_of_images base_image mask_image)))"
    by (auto simp: generation_parameters_get_def)
qed

lemma generated_bag_provenance:
  assumes "pred_option image_inv base_image" "pred_option image_inv mask_image"
    and "private_generate_images L prompt negative_prompt number_of_images width height
           guidance_scale seed base_image mask_image language output_gcs_uri w = (Inr r, bi, mi, w')"
    and "g \<in> set (images r)"
    and "k \<in> {''base_image_uri'', ''base_image_hash'', ''mask_uri'', ''mask_hash''}"
  shows "map_of (generation_parameters_get w' g) k =
         map_of (generation_shared L prompt number_of_images base_image mask_image) k"
proof -
  from generated_bag_shape[OF assms(1,2,3)] assms(4) obtain i where
    "generation_parameters_get w' g =
       dict_set ''index_of_image_in_batch'' (PInt (int i))
         (snd (parameters_block negative_prompt number_of_images width height guidance_scale seed
                 language output_gcs_uri
                 (generation_shared L prompt number_of_images base_image mask_image)))"
    by blast
  then show ?thesis
    using assms(5) by (auto simp: map_of_dict_set parameters_block_shared)
qed

lemma generation_instance_entries:
  "map_of (generation_instance L prompt (Some b) mask_image) ''image'' =
     Some (PDict (serialize_for_request L b))"
  "map_of (generation_instance L prompt base_image (Some m)) ''mask'' =
     Some (PDict [(''image'', PDict (serialize_for_request L m))])"
  by (cases mask_image; cases base_image; simp add: generation_instance_def map_of_dict_set)+

lemma example_lib_fields:
  "predict example_lib = example_predict"
  "b64decode example_lib s = Inr (map (\<lambda>c. of_nat (of_char c)) s)"
  by (simp_all add: example_lib_def)

lemma example_edited_eq:
  "example_edited =
     (Inr \<lparr>images =
        [\<lparr>loaded_bytes = Some (map (\<lambda>c. of_nat (of_char c)) ''cGl4ZWxz''), loaded_image = None,
          gcs_uri = None, generation_parameters = Some 0\<rparr>]\<rparr>,
      Some (example_image 1024 1024), Some example_remote_image,
      example_world
        \<lparr>predict_log :=
           [([PDict [(''prompt'', PStr ''x''),
                     (''image'', PDict [(''bytesBase64Encoded'', PStr (b64encode example_lib [1, 2, 3]))]),
                     (''mask'', PDict [(''image'', PDict [(''gcsUri'', PStr ''gs://bucket/cat.png'')])])]],
             [(''sampleCount'', PInt 1)])],
         dicts := (dicts example_world)
           (0 := [(''prompt'', PStr ''x''), (''number_of_images_in_batch'', PInt 1),
                  (''base_image_hash'', PStr (sha1_hexdigest example_lib [1, 2, 3])),
                  (''mask_uri'', PStr ''gs://bucket/cat.png''),
                  (''index_of_image_in_batch'', PInt 0)]),
         next_addr := 1\<rparr>)"
proof -
  have inv: "pred_option image_inv (Some (example_image 1024 1024))"
    "pred_option image_inv (Some example_remote_image)"
    by (simp_all add: example_image_inv example_remote_image_inv)
  have sh: "generation_shared example_lib ''x'' 1 (Some (example_image 1024 1024))
              (Some example_remote_image) =
      [(''prompt'', PStr ''x''), (''number_of_images_in_batch'', PInt 1),
       (''base_image_hash'', PStr (sha1_hexdigest example_lib [1, 2, 3])),
       (''mask_uri'', PStr ''gs://bucket/cat.png'')]"
    by (simp add: generation_shared_def record_provenance_def example_image_def
          example_remote_image_def dict_set_def)
  have ins: "generation_instance example_lib ''x'' (Some (example_image 1024 1024))
              (Some example_remote_image) =
      [(''prompt'', PStr ''x''),
       (''image'', PDict [(''bytesBase64Encoded'', PStr (b64encode example_lib [1, 2, 3]))]),
       (''mask'', PDict [(''image'', PDict [(''gcsUri'', PStr ''gs://bucket/cat.png'')])])]"
    by (simp add: generation_instance_def serialize_for_request_def example_image_def
          example_remote_image_def dict_set_def)
  have pb: "parameters_block None 1 None None None None None None s =
      ([(''sampleCount'', PInt 1)], s)" for s
    by (simp add: parameters_block_eq opt_set_def truthy_def size_parameters_def or0_def dict_set_def)
  show ?thesis
    unfolding example_edited_def edit_image_def private_generate_images_eq[OF inv] sh ins pb
    by (simp add: endpoint_predict_def example_lib_fields example_predict_def new_dict_def
          store_set_def decode_prediction_def dict_get_def GeneratedImage_init_def Image_init_def
          py_bool_seq_def dict_set_def example_world_def Let_def)
qed




subsection \<open>The model of \<^verbatim>\<open>json\<close> reads back what it writes\<close>























lemma skip_ws_nonspace: "c \<noteq> CHR '' '' \<Longrightarrow> skip_ws (c # r) = c # r"
  by (simp add: skip_ws_def)









subsection \<open>Saving and loading at a local path\<close>










section \<open>The claims\<close>

subsection \<open>C3: the bytes of a remote reference are fetched once\<close>

text \<open>
  Claim C3. A reference made from a URI alone downloads on the first read of its bytes and
  never again: \<open>n + 1\<close> reads in a row all return the bytes the bucket held at the first
  read, the reference then holds them, and the log of downloads grew by exactly that one
  URI. A reference made with inline bytes returns them at every read and the world is
  untouched: nothing is downloaded. The same holds for a video. The download is the
  collaborator's: the statement is for a URI whose object can be read.
\<close>

theorem resolved_bytes_fetched_once:
  "(Image_init None (Some uri) = Inr img \<and> blobs w uri = Inr b \<longrightarrow>
      read_image_bytes (Suc n) img w =
        (replicate (Suc n) (Inr b), img\<lparr>loaded_bytes := Some b\<rparr>,
         w\<lparr>fetch_log := fetch_log w @ [uri]\<rparr>))
   \<and> (Video_init None (Some uri) = Inr vid \<and> blobs w uri = Inr b \<longrightarrow>
      read_video_bytes (Suc n) vid w =
        (replicate (Suc n) (Inr b), vid\<lparr>video_loaded_bytes := Some b\<rparr>,
         w\<lparr>fetch_log := fetch_log w @ [uri]\<rparr>))
   \<and> (Image_init (Some bs) u = Inr img2 \<longrightarrow>
      read_image_bytes n img2 w = (replicate n (Inr bs), img2, w))
   \<and> (Video_init (Some bs) u = Inr vid2 \<longrightarrow>
      read_video_bytes n vid2 w = (replicate n (Inr bs), vid2, w))"
proof (intro conjI impI)
  assume a: "Image_init None (Some uri) = Inr img \<and> blobs w uri = Inr b"
  then have "loaded_bytes img = None" "gcs_uri img = Some uri"
    by (auto dest: Image_init_Inr)
  with a show "read_image_bytes (Suc n) img w =
        (replicate (Suc n) (Inr b), img\<lparr>loaded_bytes := Some b\<rparr>,
         w\<lparr>fetch_log := fetch_log w @ [uri]\<rparr>)"
    by (simp add: image_bytes_get_first read_image_bytes_cached)
next
  assume a: "Video_init None (Some uri) = Inr vid \<and> blobs w uri = Inr b"
  then have "video_loaded_bytes vid = None" "video_gcs_uri vid = Some uri"
    by (auto dest: Video_init_Inr)
  with a show "read_video_bytes (Suc n) vid w =
        (replicate (Suc n) (Inr b), vid\<lparr>video_loaded_bytes := Some b\<rparr>,
         w\<lparr>fetch_log := fetch_log w @ [uri]\<rparr>)"
    by (simp add: video_bytes_get_first read_video_bytes_cached)
next
  assume "Image_init (Some bs) u = Inr img2"
  then have "loaded_bytes img2 = Some bs"
    by (auto dest: Image_init_Inr)
  then show "read_image_bytes n img2 w = (replicate n (Inr bs), img2, w)"
    by (rule read_image_bytes_cached)
next
  assume "Video_init (Some bs) u = Inr vid2"
  then have "video_loaded_bytes vid2 = Some bs"
    by (auto dest: Video_init_Inr)
  then show "read_video_bytes n vid2 w = (replicate n (Inr bs), vid2, w)"
    by (rule read_video_bytes_cached)
qed

theorem resolved_bytes_fetched_once_witness:
  "Image_init None (Some ''gs://bucket/cat.png'')
     = Inr \<lparr>loaded_bytes = None, loaded_image = None, gcs_uri = Some ''gs://bucket/cat.png'',
            generation_parameters = None\<rparr>
   \<and> blobs example_world ''gs://bucket/cat.png'' = Inr [1, 2, 3]
   \<and> read_image_bytes 3
        \<lparr>loaded_bytes = None, loaded_image = None, gcs_uri = Some ''gs://bucket/cat.png'',
         generation_parameters = None\<rparr> example_world
      = ([Inr [1, 2, 3], Inr [1, 2, 3], Inr [1, 2, 3]],
         \<lparr>loaded_bytes = Some [1, 2, 3], loaded_image = None,
          gcs_uri = Some ''gs://bucket/cat.png'', generation_parameters = None\<rparr>,
         example_world\<lparr>fetch_log := [''gs://bucket/cat.png'']\<rparr>)
   \<and> Video_init None (Some ''gs://bucket/cat.png'')
     = Inr \<lparr>video_loaded_bytes = None, video_gcs_uri = Some ''gs://bucket/cat.png''\<rparr>
   \<and> read_video_bytes 3
        \<lparr>video_loaded_bytes = None, video_gcs_uri = Some ''gs://bucket/cat.png''\<rparr> example_world
      = ([Inr [1, 2, 3], Inr [1, 2, 3], Inr [1, 2, 3]],
         \<lparr>video_loaded_bytes = Some [1, 2, 3], video_gcs_uri = Some ''gs://bucket/cat.png''\<rparr>,
         example_world\<lparr>fetch_log := [''gs://bucket/cat.png'']\<rparr>)
   \<and> Image_init (Some [7, 8]) None
     = Inr \<lparr>loaded_bytes = Some [7, 8], loaded_image = None, gcs_uri = None,
            generation_parameters = None\<rparr>
   \<and> read_image_bytes 2
        \<lparr>loaded_bytes = Some [7, 8], loaded_image = None, gcs_uri = None,
         generation_parameters = None\<rparr> example_world
      = ([Inr [7, 8], Inr [7, 8]],
         \<lparr>loaded_bytes = Some [7, 8], loaded_image = None, gcs_uri = None,
          generation_parameters = None\<rparr>, example_world)
   \<and> Video_init (Some [7, 8]) None
     = Inr \<lparr>video_loaded_bytes = Some [7, 8], video_gcs_uri = None\<rparr>
   \<and> read_video_bytes 2 \<lparr>video_loaded_bytes = Some [7, 8], video_gcs_uri = None\<rparr> example_world
      = ([Inr [7, 8], Inr [7, 8]],
         \<lparr>video_loaded_bytes = Some [7, 8], video_gcs_uri = None\<rparr>, example_world)"
proof -
  have i: "Image_init None (Some ''gs://bucket/cat.png'')
     = Inr \<lparr>loaded_bytes = None, loaded_image = None, gcs_uri = Some ''gs://bucket/cat.png'',
            generation_parameters = None\<rparr>"
    by (simp add: Image_init_def py_bool_seq_def)
  have v: "Video_init None (Some ''gs://bucket/cat.png'')
     = Inr \<lparr>video_loaded_bytes = None, video_gcs_uri = Some ''gs://bucket/cat.png''\<rparr>"
    by (simp add: Video_init_def py_bool_seq_def)
  have b: "blobs example_world ''gs://bucket/cat.png'' = Inr [1, 2, 3]"
    by (simp add: example_world_def)
  have i2: "Image_init (Some [7, 8]) None
     = Inr \<lparr>loaded_bytes = Some [7, 8], loaded_image = None, gcs_uri = None,
            generation_parameters = None\<rparr>"
    by (simp add: Image_init_def py_bool_seq_def)
  have v2: "Video_init (Some [7, 8]) None
     = Inr \<lparr>video_loaded_bytes = Some [7, 8], video_gcs_uri = None\<rparr>"
    by (simp add: Video_init_def py_bool_seq_def)
  have f: "fetch_log example_world = []"
    by (simp add: example_world_def)
  note t = resolved_bytes_fetched_once
    [where uri = "''gs://bucket/cat.png''" and w = example_world and b = "[1, 2, 3]" and n = 2
       and bs = "[7, 8]" and u = None]
  from t i b have "read_image_bytes 3
        \<lparr>loaded_bytes = None, loaded_image = None, gcs_uri = Some ''gs://bucket/cat.png'',
         generation_parameters = None\<rparr> example_world
      = (replicate 3 (Inr [1, 2, 3]),
         \<lparr>loaded_bytes = Some [1, 2, 3], loaded_image = None,
          gcs_uri = Some ''gs://bucket/cat.png'', generation_parameters = None\<rparr>,
         example_world\<lparr>fetch_log := [''gs://bucket/cat.png'']\<rparr>)"
    by (simp add: f numeral_3_eq_3)
  moreover from t v b have "read_video_bytes 3
        \<lparr>video_loaded_bytes = None, video_gcs_uri = Some ''gs://bucket/cat.png''\<rparr> example_world
      = (replicate 3 (Inr [1, 2, 3]),
         \<lparr>video_loaded_bytes = Some [1, 2, 3], video_gcs_uri = Some ''gs://bucket/cat.png''\<rparr>,
         example_world\<lparr>fetch_log := [''gs://bucket/cat.png'']\<rparr>)"
    by (simp add: f numeral_3_eq_3)
  moreover from t i2 have "read_image_bytes 2
        \<lparr>loaded_bytes = Some [7, 8], loaded_image = None, gcs_uri = None,
         generation_parameters = None\<rparr> example_world
      = (replicate 2 (Inr [7, 8]),
         \<lparr>loaded_bytes = Some [7, 8], loaded_image = None, gcs_uri = None,
          generation_parameters = None\<rparr>, example_world)"
    by blast
  moreover from t v2 have "read_video_bytes 2 \<lparr>video_loaded_bytes = Some [7, 8], video_gcs_uri = None\<rparr> example_world
      = (replicate 2 (Inr [7, 8]),
         \<lparr>video_loaded_bytes = Some [7, 8], video_gcs_uri = None\<rparr>, example_world)"
    by blast
  ultimately show ?thesis
    using i v b i2 v2 by (simp add: numeral_3_eq_3 numeral_2_eq_2)
qed

subsection \<open>C4: when construction fails\<close>

text \<open>
  Claim C4, as the code has it. \<^verbatim>\<open>Image(...)\<close> and \<^verbatim>\<open>Video(...)\<close> compare
  \<^verbatim>\<open>bool(bytes)\<close> with \<^verbatim>\<open>bool(gcs_uri)\<close>: construction fails with the \<^verbatim>\<open>ValueError\<close> exactly
  when both arguments are non-empty or each is \<^verbatim>\<open>None\<close> or empty, and otherwise yields the
  object holding the two arguments. An empty byte string or an empty URI counts as not
  given.
\<close>

theorem media_construction_fails_iff:
  "(Image_init b u = Inl (ValueError ''Either image_bytes or gcs_uri must be provided.''))
     = ((b = None \<or> b = Some []) = (u = None \<or> u = Some []))
   \<and> (Image_init b u =
        Inr \<lparr>loaded_bytes = b, loaded_image = None, gcs_uri = u, generation_parameters = None\<rparr>)
     = ((b = None \<or> b = Some []) \<noteq> (u = None \<or> u = Some []))
   \<and> (Video_init b u = Inl (ValueError ''Either video_bytes or gcs_uri must be provided.''))
     = ((b = None \<or> b = Some []) = (u = None \<or> u = Some []))
   \<and> (Video_init b u = Inr \<lparr>video_loaded_bytes = b, video_gcs_uri = u\<rparr>)
     = ((b = None \<or> b = Some []) \<noteq> (u = None \<or> u = Some []))"
proof (cases b)
  case None
  then show ?thesis
    by (cases u) (auto simp: Image_init_def Video_init_def py_bool_seq_def)
next
  case (Some bs)
  then show ?thesis
    by (cases u) (auto simp: Image_init_def Video_init_def py_bool_seq_def)
qed

text \<open>
  Claim C4 as stated fails on empty arguments: with empty inline bytes and no URI exactly
  one of the two is given, yet construction fails; with empty inline bytes and a URI both
  are given, yet it succeeds.
\<close>

theorem media_construction_counterexample:
  "Image_init (Some []) None = Inl (ValueError ''Either image_bytes or gcs_uri must be provided.'')
   \<and> Video_init (Some []) None = Inl (ValueError ''Either video_bytes or gcs_uri must be provided.'')
   \<and> Image_init None (Some []) = Inl (ValueError ''Either image_bytes or gcs_uri must be provided.'')
   \<and> Image_init (Some []) (Some ''gs://bucket/cat.png'')
       = Inr \<lparr>loaded_bytes = Some [], loaded_image = None, gcs_uri = Some ''gs://bucket/cat.png'',
              generation_parameters = None\<rparr>"
  by (simp add: Image_init_def Video_init_def py_bool_seq_def)


subsection \<open>C10: when \<^verbatim>\<open>get_embeddings\<close> refuses its input\<close>

text \<open>
  Claim C10, as the code has it. With no image, no video, and a contextual text that is
  \<^verbatim>\<open>None\<close> or the empty string, \<^verbatim>\<open>get_embeddings\<close> raises the \<^verbatim>\<open>ValueError\<close> for the
  missing input and sends nothing. In every other case (for an image and a video as their
  constructors leave them) the guard is passed: the request is built and sent, its
  instance holding each input that was given, and the result is what the service's answer
  decodes to.
\<close>

theorem get_embeddings_missing_input_iff:
  "(image_arg = None \<and> video_arg = None \<and> (contextual_text = None \<or> contextual_text = Some [])
      \<longrightarrow> get_embeddings L image_arg video_arg contextual_text dimension segment_config w =
            (Inl missing_input, image_arg, video_arg, w))
   \<and> (\<not> (image_arg = None \<and> video_arg = None
          \<and> (contextual_text = None \<or> contextual_text = Some []))
       \<and> pred_option image_inv image_arg \<and> pred_option video_inv video_arg
      \<longrightarrow> get_embeddings L image_arg video_arg contextual_text dimension segment_config w =
            (case predict L
                    [PDict (embeddings_instance L image_arg video_arg contextual_text
                              segment_config)]
                    (embeddings_parameters dimension) of
               Inl e \<Rightarrow> Inl e
             | Inr predictions \<Rightarrow> embeddings_response predictions,
             image_arg, video_arg,
             w\<lparr>predict_log := predict_log w @
                 [([PDict (embeddings_instance L image_arg video_arg contextual_text
                             segment_config)],
                   embeddings_parameters dimension)]\<rparr>))"
proof -
  have t: "(contextual_text = None \<or> contextual_text = Some []) = (\<not> py_bool_seq contextual_text)"
    by (cases contextual_text) (simp_all add: py_bool_seq_def)
  show ?thesis
    unfolding t
    by (intro conjI impI) (simp add: get_embeddings_missing, simp add: get_embeddings_eq)
qed

theorem get_embeddings_missing_input_witness:
  "get_embeddings example_lib None None None None None example_world =
     (Inl missing_input, None, None, example_world)
   \<and> get_embeddings example_lib None None (Some ''a cat'') None None example_world =
     (Inl IndexError, None, None,
      example_world\<lparr>predict_log := [([PDict [(''text'', PStr ''a cat'')]], [])]\<rparr>)"
  using get_embeddings_missing_input_iff
          [of None None None example_lib None None example_world]
        get_embeddings_missing_input_iff
          [of None None "Some ''a cat''" example_lib None None example_world]
  by (simp add: example_lib_def example_predict_def example_world_def embeddings_instance_def
        embeddings_parameters_def embeddings_response_def dict_set_def)

text \<open>
  Claim C10 as stated fails when the contextual text is present but empty: the text was
  supplied, and the call still raises the error for the missing input.
\<close>

theorem get_embeddings_empty_text_counterexample:
  "get_embeddings example_lib None None (Some []) None None example_world =
     (Inl missing_input, None, None, example_world)"
  by (simp add: get_embeddings_def py_bool_seq_def)

subsection \<open>C2: which optional arguments become keys of the parameters\<close>

text \<open>
  Claim C2, as the code has it. In the parameters \<^verbatim>\<open>_generate_images\<close> sends, \<^verbatim>\<open>seed\<close>,
  \<^verbatim>\<open>guidanceScale\<close>, \<^verbatim>\<open>language\<close> and \<^verbatim>\<open>storageUri\<close> are keys exactly when the argument is
  not \<^verbatim>\<open>None\<close>, and then carry the value passed, a zero seed and an empty string
  included. \<^verbatim>\<open>negativePrompt\<close> is a key exactly when \<^verbatim>\<open>negative_prompt\<close> is a non-empty
  string, and \<^verbatim>\<open>dimension\<close> is a key of the embedding parameters exactly when
  \<^verbatim>\<open>dimension\<close> is a non-zero integer: these two are tested with \<^verbatim>\<open>if x:\<close>. The last two
  conjuncts say that these are the parameters of the request the endpoint receives.
\<close>

theorem optional_parameter_keys:
  fixes negative_prompt language output_gcs_uri :: "string option"
    and seed width height dimension :: "int option" and guidance_scale :: "real option"
    and number_of_images :: int
  defines "ps \<equiv> \<lambda>shared. fst (parameters_block negative_prompt number_of_images width height
                     guidance_scale seed language output_gcs_uri shared)"
  shows
  "(\<forall>shared.
      (''negativePrompt'' \<in> dict_keys (ps shared))
         = (negative_prompt \<noteq> None \<and> negative_prompt \<noteq> Some [])
    \<and> (''seed'' \<in> dict_keys (ps shared)) = (seed \<noteq> None)
    \<and> (''guidanceScale'' \<in> dict_keys (ps shared)) = (guidance_scale \<noteq> None)
    \<and> (''language'' \<in> dict_keys (ps shared)) = (language \<noteq> None)
    \<and> (''storageUri'' \<in> dict_keys (ps shared)) = (output_gcs_uri \<noteq> None)
    \<and> map_of (ps shared) ''seed'' = map_option PInt seed
    \<and> map_of (ps shared) ''guidanceScale'' = map_option PFloat guidance_scale
    \<and> map_of (ps shared) ''language'' = map_option PStr language
    \<and> map_of (ps shared) ''storageUri'' = map_option PStr output_gcs_uri
    \<and> (negative_prompt \<noteq> None \<and> negative_prompt \<noteq> Some []
         \<longrightarrow> map_of (ps shared) ''negativePrompt'' = map_option PStr negative_prompt))
   \<and> (''dimension'' \<in> dict_keys (embeddings_parameters dimension))
        = (dimension \<noteq> None \<and> dimension \<noteq> Some 0)
   \<and> map_of (embeddings_parameters dimension) ''dimension''
        = (if dimension = Some 0 then None else map_option PInt dimension)
   \<and> (pred_option image_inv base_image \<and> pred_option image_inv mask_image \<longrightarrow>
        predict_log (snd (snd (snd (private_generate_images L prompt negative_prompt
           number_of_images width height guidance_scale seed base_image mask_image language
           output_gcs_uri w)))) =
        predict_log w @
          [([PDict (generation_instance L prompt base_image mask_image)],
            ps (generation_shared L prompt number_of_images base_image mask_image))])
   \<and> (pred_option image_inv image_arg \<and> pred_option video_inv video_arg
        \<and> \<not> (image_arg = None \<and> video_arg = None \<and> \<not> py_bool_seq contextual_text) \<longrightarrow>
        predict_log (snd (snd (snd (get_embeddings L image_arg video_arg contextual_text
           dimension segment_config w)))) =
        predict_log w @
          [([PDict (embeddings_instance L image_arg video_arg contextual_text segment_config)],
            embeddings_parameters dimension)])"
proof -
  have np: "py_bool_seq negative_prompt = (negative_prompt \<noteq> None \<and> negative_prompt \<noteq> Some [])"
    by (cases negative_prompt) (simp_all add: py_bool_seq_def)
  have keys: "(k \<in> dict_keys d) = (map_of d k \<noteq> None)" for k and d :: pydict
    by (auto simp: dict_keys_dom)
  have gen: "\<forall>shared.
      (''negativePrompt'' \<in> dict_keys (ps shared))
         = (negative_prompt \<noteq> None \<and> negative_prompt \<noteq> Some [])
    \<and> (''seed'' \<in> dict_keys (ps shared)) = (seed \<noteq> None)
    \<and> (''guidanceScale'' \<in> dict_keys (ps shared)) = (guidance_scale \<noteq> None)
    \<and> (''language'' \<in> dict_keys (ps shared)) = (language \<noteq> None)
    \<and> (''storageUri'' \<in> dict_keys (ps shared)) = (output_gcs_uri \<noteq> None)
    \<and> map_of (ps shared) ''seed'' = map_option PInt seed
    \<and> map_of (ps shared) ''guidanceScale'' = map_option PFloat guidance_scale
    \<and> map_of (ps shared) ''language'' = map_option PStr language
    \<and> map_of (ps shared) ''storageUri'' = map_option PStr output_gcs_uri
    \<and> (negative_prompt \<noteq> None \<and> negative_prompt \<noteq> Some []
         \<longrightarrow> map_of (ps shared) ''negativePrompt'' = map_option PStr negative_prompt)"
    unfolding ps_def keys parameters_block_values np by auto
  have dim: "(''dimension'' \<in> dict_keys (embeddings_parameters dimension))
        = (dimension \<noteq> None \<and> dimension \<noteq> Some 0)
   \<and> map_of (embeddings_parameters dimension) ''dimension''
        = (if dimension = Some 0 then None else map_option PInt dimension)"
    by (cases dimension) (simp_all add: keys embeddings_parameters_def map_of_dict_set)
  show ?thesis
    using gen dim
    by (simp add: private_generate_images_request get_embeddings_request ps_def)
qed


theorem optional_parameter_keys_witness:
  "predict_log (snd (snd (snd (private_generate_images example_lib ''x'' (Some ''blurry'') 1
       None None None (Some 0) None None (Some []) None example_world)))) =
     [([PDict [(''prompt'', PStr ''x'')]],
       [(''sampleCount'', PInt 1), (''negativePrompt'', PStr ''blurry''), (''seed'', PInt 0),
        (''language'', PStr [])])]
   \<and> map_of (fst (parameters_block (Some ''blurry'') 1 None None None (Some 0) (Some []) None []))
        ''negativePrompt'' = Some (PStr ''blurry'')
   \<and> predict_log (snd (snd (snd (get_embeddings example_lib None None (Some ''a cat'') (Some 128)
       None example_world)))) =
     [([PDict [(''text'', PStr ''a cat'')]], [(''dimension'', PInt 128)])]"
  using optional_parameter_keys
    [where negative_prompt = "Some ''blurry''" and number_of_images = 1 and width = None
       and height = None and guidance_scale = None and seed = "Some 0" and language = "Some []"
       and output_gcs_uri = None and dimension = "Some 128" and base_image = None
       and mask_image = None and L = example_lib and prompt = "''x''" and w = example_world
       and image_arg = None and video_arg = None and contextual_text = "Some ''a cat''"
       and segment_config = None]
  by (simp add: parameters_block_eq opt_set_def truthy_def dict_set_def size_parameters_def
        or0_def generation_instance_def generation_shared_def embeddings_instance_def
        embeddings_parameters_def example_world_def py_bool_seq_def)

text \<open>
  Claim C2 as stated fails for the two arguments tested by truth value: a supplied empty
  \<^verbatim>\<open>negative_prompt\<close> leaves no \<^verbatim>\<open>negativePrompt\<close> key in the request of
  \<^verbatim>\<open>generate_images\<close>, and a supplied \<^verbatim>\<open>dimension\<close> of zero leaves the parameters of
  \<^verbatim>\<open>get_embeddings\<close> empty.
\<close>

theorem optional_parameter_keys_counterexample:
  "predict_log (snd (generate_images example_lib ''x'' (Some []) 1 None None None None
       example_world)) =
     [([PDict [(''prompt'', PStr ''x'')]], [(''sampleCount'', PInt 1)])]
   \<and> predict_log (snd (snd (snd (get_embeddings example_lib None None (Some ''a cat'') (Some 0)
       None example_world)))) =
     [([PDict [(''text'', PStr ''a cat'')]], [])]"
  by (simp add: generate_images_world private_generate_images_request get_embeddings_request
        parameters_block_eq opt_set_def truthy_def dict_set_def size_parameters_def
        or0_def generation_instance_def generation_shared_def embeddings_instance_def
        embeddings_parameters_def example_world_def py_bool_seq_def)

subsection \<open>C6: a media reference is serialized under exactly one key\<close>

text \<open>
  Claim C6. For an image, a mask and a video as their constructors leave them, the entry
  the specification calls \<^verbatim>\<open>serialize_for_request()\<close> holds exactly one of the keys
  \<^verbatim>\<open>gcsUri\<close> and \<^verbatim>\<open>bytesBase64Encoded\<close>: the URI when the reference has a non-empty URI, and
  otherwise the base64 encoding of the bytes it holds (with the segment configuration
  nested beside it for a video, when one is given). Every builder puts exactly that entry
  into the instance it sends: generation and editing (base image and mask), upscaling,
  captioning, question answering, and embedding (image and video).
\<close>

theorem media_entry_has_one_key:
  assumes "image_inv img" "image_inv mask_image" "video_inv vid"
  shows
  "one_media_key (serialize_for_request L img)
   \<and> ((\<exists>u. gcs_uri img = Some u \<and> u \<noteq> [] \<and> serialize_for_request L img = [(''gcsUri'', PStr u)])
      \<or> ((gcs_uri img = None \<or> gcs_uri img = Some []) \<and>
         (\<exists>b. loaded_bytes img = Some b \<and>
              serialize_for_request L img = [(''bytesBase64Encoded'', PStr (b64encode L b))])))
   \<and> one_media_key (segment_entry segment_config (serialize_video_for_request L vid))
   \<and> ((\<exists>u. video_gcs_uri vid = Some u \<and> u \<noteq> [] \<and>
            serialize_video_for_request L vid = [(''gcsUri'', PStr u)])
      \<or> ((video_gcs_uri vid = None \<or> video_gcs_uri vid = Some []) \<and>
         (\<exists>b. video_loaded_bytes vid = Some b \<and>
              serialize_video_for_request L vid = [(''bytesBase64Encoded'', PStr (b64encode L b))])))
   \<and> predict_log (snd (snd (snd (private_generate_images L prompt negative_prompt
        number_of_images width height guidance_scale seed (Some img) (Some mask_image) language
        output_gcs_uri w)))) =
      predict_log w @
        [([PDict [(''prompt'', PStr prompt),
                  (''image'', PDict (serialize_for_request L img)),
                  (''mask'', PDict [(''image'', PDict (serialize_for_request L mask_image))])]],
          fst (parameters_block negative_prompt number_of_images width height guidance_scale seed
                 language output_gcs_uri
                 (generation_shared L prompt number_of_images (Some img) (Some mask_image))))]
   \<and> (image_size L img w = (Inr (sx, sy), img', w') \<and> (sx = 1024 \<or> sy = 1024)
        \<and> (n = 2048 \<or> n = 4096) \<longrightarrow>
      predict_log (snd (snd (upscale_image L img (Some n) output_gcs_uri w))) =
      predict_log w @
        [([PDict [(''prompt'', PStr []), (''image'', PDict (serialize_for_request L img))]],
          upscale_parameters n output_gcs_uri)])
   \<and> predict_log (snd (snd (get_captions L img number_of_results caption_language
        output_gcs_uri w))) =
      predict_log w @
        [([PDict [(''image'', PDict (serialize_for_request L img))]],
          (case output_gcs_uri of
             Some u \<Rightarrow> dict_set ''storageUri'' (PStr u)
                         [(''sampleCount'', PInt number_of_results),
                          (''language'', PStr caption_language)]
           | None \<Rightarrow> [(''sampleCount'', PInt number_of_results),
                      (''language'', PStr caption_language)]))]
   \<and> predict_log (snd (snd (ask_question L img question number_of_results w))) =
      predict_log w @
        [([PDict [(''prompt'', PStr question), (''image'', PDict (serialize_for_request L img))]],
          [(''sampleCount'', PInt number_of_results)])]
   \<and> predict_log (snd (snd (snd (get_embeddings L (Some img) (Some vid) None dimension
        segment_config w)))) =
      predict_log w @
        [([PDict [(''image'', PDict (serialize_for_request L img)),
                  (''video'',
                   PDict (segment_entry segment_config (serialize_video_for_request L vid)))]],
          embeddings_parameters dimension)]"
proof -
  have t: "(x = None \<or> x = Some []) = (\<not> py_bool_seq x)" for x :: "string option"
    by (cases x) (simp_all add: py_bool_seq_def)
  have gen: "generation_instance L prompt (Some img) (Some mask_image) =
      [(''prompt'', PStr prompt),
       (''image'', PDict (serialize_for_request L img)),
       (''mask'', PDict [(''image'', PDict (serialize_for_request L mask_image))])]"
    by (simp add: generation_instance_def dict_set_def)
  have emb: "embeddings_instance L (Some img) (Some vid) None segment_config =
      [(''image'', PDict (serialize_for_request L img)),
       (''video'', PDict (segment_entry segment_config (serialize_video_for_request L vid)))]"
    by (simp add: embeddings_instance_def dict_set_def)
  have g: "predict_log (snd (snd (snd (private_generate_images L prompt negative_prompt
        number_of_images width height guidance_scale seed (Some img) (Some mask_image) language
        output_gcs_uri w)))) =
      predict_log w @
        [([PDict [(''prompt'', PStr prompt),
                  (''image'', PDict (serialize_for_request L img)),
                  (''mask'', PDict [(''image'', PDict (serialize_for_request L mask_image))])]],
          fst (parameters_block negative_prompt number_of_images width height guidance_scale seed
                 language output_gcs_uri
                 (generation_shared L prompt number_of_images (Some img) (Some mask_image))))]"
    using private_generate_images_request[of "Some img" "Some mask_image"] assms
    by (simp add: gen)
  have e: "predict_log (snd (snd (snd (get_embeddings L (Some img) (Some vid) None dimension
        segment_config w)))) =
      predict_log w @
        [([PDict [(''image'', PDict (serialize_for_request L img)),
                  (''video'',
                   PDict (segment_entry segment_config (serialize_video_for_request L vid)))]],
          embeddings_parameters dimension)]"
    using get_embeddings_request[of "Some img" "Some vid" None] assms
    by (simp add: emb)
  have u: "image_size L img w = (Inr (sx, sy), img', w') \<and> (sx = 1024 \<or> sy = 1024)
        \<and> (n = 2048 \<or> n = 4096) \<longrightarrow>
      predict_log (snd (snd (upscale_image L img (Some n) output_gcs_uri w))) =
      predict_log w @
        [([PDict [(''prompt'', PStr []), (''image'', PDict (serialize_for_request L img))]],
          upscale_parameters n output_gcs_uri)]"
    using upscale_image_request[OF assms(1)] by blast
  show ?thesis
    unfolding t
    using one_media_key_image[OF assms(1)] serialize_for_request_cases[OF assms(1)]
      one_media_key_video[OF assms(3)] serialize_video_for_request_cases[OF assms(3)]
      g u e get_captions_request[OF assms(1)] ask_question_request[OF assms(1)]
    by blast
qed

theorem media_entry_has_one_key_witness:
  "image_inv (example_image 1024 1024) \<and> image_inv example_remote_image
   \<and> video_inv example_remote_video
   \<and> serialize_for_request example_lib (example_image 1024 1024) =
        [(''bytesBase64Encoded'', PStr (b64encode example_lib [1, 2, 3]))]
   \<and> serialize_for_request example_lib example_remote_image =
        [(''gcsUri'', PStr ''gs://bucket/cat.png'')]
   \<and> image_size example_lib (example_image 1024 1024) example_world =
        (Inr (1024, 1024), example_image 1024 1024, example_world)
   \<and> predict_log (snd (snd (upscale_image example_lib (example_image 1024 1024) (Some 2048) None
        example_world))) =
      [([PDict [(''prompt'', PStr []),
                (''image'', PDict [(''bytesBase64Encoded'', PStr (b64encode example_lib [1, 2, 3]))])]],
        upscale_parameters 2048 None)]
   \<and> predict_log (snd (snd (snd (get_embeddings example_lib (Some (example_image 1024 1024))
        (Some example_remote_video) None None None example_world)))) =
      [([PDict [(''image'', PDict [(''bytesBase64Encoded'', PStr (b64encode example_lib [1, 2, 3]))]),
                (''video'', PDict [(''gcsUri'', PStr ''gs://bucket/clip.mp4'')])]],
        [])]"
proof -
  have s1: "serialize_for_request example_lib (example_image 1024 1024) =
        [(''bytesBase64Encoded'', PStr (b64encode example_lib [1, 2, 3]))]"
    by (simp add: serialize_for_request_def example_image_def)
  have s2: "serialize_for_request example_lib example_remote_image =
        [(''gcsUri'', PStr ''gs://bucket/cat.png'')]"
    by (simp add: serialize_for_request_def example_remote_image_def)
  have s3: "serialize_video_for_request example_lib example_remote_video =
        [(''gcsUri'', PStr ''gs://bucket/clip.mp4'')]"
    by (simp add: serialize_video_for_request_def example_remote_video_def)
  have l: "predict_log example_world = []"
    by (simp add: example_world_def)
  note t = media_entry_has_one_key
    [where img = "example_image 1024 1024" and mask_image = example_remote_image
       and vid = example_remote_video and L = example_lib and w = example_world and sx = 1024
       and sy = 1024 and n = 2048 and img' = "example_image 1024 1024" and w' = example_world
       and output_gcs_uri = None and segment_config = None and dimension = None]
  show ?thesis
    using t
    by (simp add: example_image_inv example_remote_image_inv example_remote_video_inv
          example_image_size s1 s2 s3 l segment_entry_def embeddings_parameters_def)
qed

subsection \<open>C8: the size checks of \<^verbatim>\<open>upscale_image\<close>\<close>

text \<open>
  Claim C8. Let the source image decode to the size \<open>(sx, sy)\<close>. Reading the size sends
  nothing to the prediction endpoint. If neither axis is 1024 the call raises the
  \<^verbatim>\<open>ValueError\<close> for the source size; if an axis is 1024 but the target is not 2048 or 4096
  (\<^verbatim>\<open>None\<close> included) it raises the \<^verbatim>\<open>ValueError\<close> for the target size; in both cases the
  world is the one the size was read in, so no prediction request was made. If an axis is
  1024 and the target is 2048 or 4096 the call proceeds and sends its request. The instance
  after the theorem runs the three examples: 800x1024 to 2048 is accepted, 800x800 is
  rejected, the target 1024 is rejected.
\<close>

theorem upscale_image_size_checks:
  assumes "image_size L img w = (Inr (sx, sy), img', w')"
  shows
  "predict_log w' = predict_log w
   \<and> (sx \<noteq> 1024 \<and> sy \<noteq> 1024 \<longrightarrow>
        upscale_image L img new_size output_gcs_uri w = (Inl unsupported_source_size, img', w'))
   \<and> ((sx = 1024 \<or> sy = 1024) \<and> new_size \<noteq> Some 2048 \<and> new_size \<noteq> Some 4096 \<longrightarrow>
        upscale_image L img new_size output_gcs_uri w = (Inl unsupported_target_size, img', w'))
   \<and> ((sx = 1024 \<or> sy = 1024) \<and> (new_size = Some 2048 \<or> new_size = Some 4096)
        \<and> image_inv img \<longrightarrow>
        (\<exists>n. new_size = Some n \<and>
           predict_log (snd (snd (upscale_image L img new_size output_gcs_uri w))) =
             predict_log w @
               [([PDict [(''prompt'', PStr []), (''image'', PDict (serialize_for_request L img))]],
                 upscale_parameters n output_gcs_uri)]))"
proof (intro conjI impI)
  show "predict_log w' = predict_log w"
    using image_size_world[OF assms] by simp
next
  assume "sx \<noteq> 1024 \<and> sy \<noteq> 1024"
  then show "upscale_image L img new_size output_gcs_uri w = (Inl unsupported_source_size, img', w')"
    using upscale_image_source_error[OF assms] by simp
next
  assume "(sx = 1024 \<or> sy = 1024) \<and> new_size \<noteq> Some 2048 \<and> new_size \<noteq> Some 4096"
  then show "upscale_image L img new_size output_gcs_uri w = (Inl unsupported_target_size, img', w')"
    using upscale_image_target_error[OF assms] by simp
next
  assume a: "(sx = 1024 \<or> sy = 1024) \<and> (new_size = Some 2048 \<or> new_size = Some 4096)
        \<and> image_inv img"
  then obtain n where n: "new_size = Some n" "n = 2048 \<or> n = 4096" by auto
  from a have inv: "image_inv img" and s: "sx = 1024 \<or> sy = 1024" by simp_all
  show "\<exists>n. new_size = Some n \<and>
           predict_log (snd (snd (upscale_image L img new_size output_gcs_uri w))) =
             predict_log w @
               [([PDict [(''prompt'', PStr []), (''image'', PDict (serialize_for_request L img))]],
                 upscale_parameters n output_gcs_uri)]"
    using upscale_image_request[OF inv assms s n(2)] n(1) by simp
qed

theorem upscale_image_size_checks_witness:
  "image_size example_lib (example_image 800 1024) example_world =
     (Inr (800, 1024), example_image 800 1024, example_world)
   \<and> image_inv (example_image 800 1024)
   \<and> predict_log (snd (snd (upscale_image example_lib (example_image 800 1024) (Some 2048) None
        example_world))) =
      [([PDict [(''prompt'', PStr []),
                (''image'', PDict (serialize_for_request example_lib (example_image 800 1024)))]],
        upscale_parameters 2048 None)]
   \<and> image_size example_lib (example_image 800 800) example_world =
     (Inr (800, 800), example_image 800 800, example_world)
   \<and> upscale_image example_lib (example_image 800 800) (Some 2048) None example_world =
     (Inl unsupported_source_size, example_image 800 800, example_world)
   \<and> upscale_image example_lib (example_image 800 1024) (Some 1024) None example_world =
     (Inl unsupported_target_size, example_image 800 1024, example_world)
   \<and> upscale_image example_lib (example_image 800 1024) None None example_world =
     (Inl unsupported_target_size, example_image 800 1024, example_world)"
  using upscale_image_size_checks[OF example_image_size[of example_lib 800 1024 example_world],
          where new_size = "Some 2048" and output_gcs_uri = None]
        upscale_image_size_checks[OF example_image_size[of example_lib 800 800 example_world],
          where new_size = "Some 2048" and output_gcs_uri = None]
        upscale_image_size_checks[OF example_image_size[of example_lib 800 1024 example_world],
          where new_size = "Some 1024" and output_gcs_uri = None]
        upscale_image_size_checks[OF example_image_size[of example_lib 800 1024 example_world],
          where new_size = None and output_gcs_uri = None]
  by (simp add: example_image_size example_image_inv example_world_def)

subsection \<open>C9: upscaling writes into the bag of the source image\<close>

text \<open>
  Claim C9, as the code has it. When \<^verbatim>\<open>upscale_image\<close> succeeds on a \<^verbatim>\<open>GeneratedImage\<close>
  whose bag lives at address \<open>a\<close>, the returned image holds the same address, no
  dictionary is allocated, and the store changes at \<open>a\<close> only: the bag there becomes the
  old bag with \<^verbatim>\<open>upscaled_image_size\<close> set to the requested size. So the source image's
  bag holds the new size too, and every pair under another key is present and unchanged.
  An earlier \<^verbatim>\<open>upscaled_image_size\<close>, if the bag had one, is overwritten.
\<close>

theorem upscale_updates_bag_in_place:
  assumes "generation_parameters img = Some a"
    and "upscale_image L img new_size output_gcs_uri w = (Inr g, img', w')"
  shows
  "generation_parameters g = Some a \<and> generation_parameters img' = Some a
   \<and> next_addr w' = next_addr w
   \<and> (\<exists>n. new_size = Some n \<and>
          dicts w' = (dicts w)(a := dict_set ''upscaled_image_size'' (PInt n) (dicts w a)) \<and>
          map_of (generation_parameters_get w' g) ''upscaled_image_size'' = Some (PInt n) \<and>
          map_of (generation_parameters_get w' img') ''upscaled_image_size'' = Some (PInt n))
   \<and> (\<forall>k. k \<noteq> ''upscaled_image_size'' \<longrightarrow>
          map_of (generation_parameters_get w' g) k = map_of (generation_parameters_get w img) k)"
proof -
  from upscale_image_InrD[OF assms(2)] obtain sx sy img1 w1 n inst w2 ps where
    sz: "image_size L img w = (Inr (sx, sy), img1, w1)" and n: "new_size = Some n" and
    ins: "upscale_instance L img1 w1 = (Inr inst, img', w2)" and
    res: "upscale_result L img' n ps
         (w2\<lparr>predict_log := predict_log w2 @ [([PDict inst], upscale_parameters n output_gcs_uri)]\<rparr>) =
         (Inr g, w')"
    by blast
  from image_size_world[OF sz] image_size_image[OF sz] upscale_instance_frame[OF ins] assms(1)
  have fr: "dicts w2 = dicts w" "next_addr w2 = next_addr w" "generation_parameters img' = Some a"
    by simp_all
  from res fr(3) obtain p where
    dec: "decode_prediction L p a = Inr g" and
    w': "w' = store_set a ''upscaled_image_size'' (PInt n)
          (w2\<lparr>predict_log := predict_log w2 @ [([PDict inst], upscale_parameters n output_gcs_uri)]\<rparr>)"
    by (auto simp: upscale_result_def Let_def split: list.splits)
  from decode_prediction_params[OF dec] have g: "generation_parameters g = Some a" by simp
  have d: "dicts w' = (dicts w)(a := dict_set ''upscaled_image_size'' (PInt n) (dicts w a))"
    by (simp add: w' store_set_def fr)
  show ?thesis
    using g fr n d assms(1)
    by (simp add: generation_parameters_get_def map_of_dict_set w' store_set_def)
qed



theorem upscale_updates_bag_in_place_witness:
  "generation_parameters example_generated_image = Some 0
   \<and> fst example_upscaled =
       Inr \<lparr>loaded_bytes = Some (map (\<lambda>c. of_nat (of_char c)) ''cGl4ZWxz''), loaded_image = None,
             gcs_uri = None, generation_parameters = Some 0\<rparr>
   \<and> fst (snd example_upscaled) = example_generated_image
   \<and> next_addr (snd (snd example_upscaled)) = 1
   \<and> generation_parameters_get example_world_with_bag example_generated_image =
       [(''prompt'', PStr ''cat''), (''seed'', PInt 7)]
   \<and> generation_parameters_get (snd (snd example_upscaled)) example_generated_image =
       [(''prompt'', PStr ''cat''), (''seed'', PInt 7), (''upscaled_image_size'', PInt 2048)]"
proof -
  have gp: "generation_parameters example_generated_image = Some 0"
    by (simp add: example_generated_image_def)
  note run = example_upscaled_eq[unfolded example_upscaled_def]
  have d: "dicts example_world_with_bag 0 = [(''prompt'', PStr ''cat''), (''seed'', PInt 7)]"
    "next_addr example_world_with_bag = 1"
    by (simp_all add: example_world_with_bag_def)
  from upscale_updates_bag_in_place[OF gp run] have
    "dicts (snd (snd example_upscaled)) 0 =
       dict_set ''upscaled_image_size'' (PInt 2048) (dicts example_world_with_bag 0)"
    by (simp add: example_upscaled_eq)
  then show ?thesis
    using d gp
    by (simp add: example_upscaled_eq generation_parameters_get_def dict_set_def)
qed

text \<open>
  Claim C9 as stated fails when the same generated image is upscaled twice. The first call
  (to 2048) leaves \<^verbatim>\<open>upscaled_image_size = 2048\<close> in the source's bag; the second call
  (to 4096) on the same source succeeds, and that pair, present before it, is gone:
  the bag now says 4096.
\<close>

theorem upscale_twice_counterexample:
  "map_of (generation_parameters_get (snd (snd example_upscaled)) example_generated_image)
       ''upscaled_image_size'' = Some (PInt 2048)
   \<and> fst (snd example_upscaled) = example_generated_image
   \<and> example_upscaled_twice =
       upscale_image example_lib example_generated_image (Some 4096) None (snd (snd example_upscaled))
   \<and> isl (fst example_upscaled_twice) = False
   \<and> map_of (generation_parameters_get (snd (snd example_upscaled_twice)) example_generated_image)
       ''upscaled_image_size'' = Some (PInt 4096)"
proof -
  have gp: "generation_parameters example_generated_image = Some 0"
    by (simp add: example_generated_image_def)
  have a: "map_of (generation_parameters_get (snd (snd example_upscaled)) example_generated_image)
       ''upscaled_image_size'' = Some (PInt 2048)"
    by (simp add: example_upscaled_eq generation_parameters_get_def gp)
  have b: "fst (snd example_upscaled) = example_generated_image"
    by (simp add: example_upscaled_eq)
  have c: "example_upscaled_twice =
       upscale_image example_lib example_generated_image (Some 4096) None (snd (snd example_upscaled))"
    by (simp add: example_upscaled_twice_def split_beta b)
  have d: "isl (fst example_upscaled_twice) = False"
    by (simp add: example_upscaled_twice_eq)
  have e: "map_of (generation_parameters_get (snd (snd example_upscaled_twice)) example_generated_image)
       ''upscaled_image_size'' = Some (PInt 4096)"
    by (simp add: example_upscaled_twice_eq generation_parameters_get_def gp)
  show ?thesis
    by (intro conjI a b c d e)
qed

subsection \<open>C5: one generated image per prediction, each with its own copy of the bag\<close>

text \<open>
  Claim C5. Let the service answer the request of \<^verbatim>\<open>_generate_images\<close> (the routine
  behind \<^verbatim>\<open>generate_images\<close> and \<^verbatim>\<open>edit_image\<close>) with the list \<open>predictions\<close>, and let
  \<open>shared\<close> be the bag built once for the call. Whenever the call returns a response, it
  holds one image per prediction, in order: image \<open>i\<close> is prediction \<open>i\<close> decoded, its bag
  is a new dictionary equal to \<open>shared\<close> with \<^verbatim>\<open>index_of_image_in_batch = i\<close>, so
  \<^verbatim>\<open>prompt\<close> and \<^verbatim>\<open>number_of_images_in_batch\<close> are the same in all of them. The bags are
  distinct objects: the addresses differ, and writing any key into the bag of one image
  leaves the bag of every other image as it was. The call does return a response when every
  prediction can be wrapped (it carries bytes or a URI, as the constructor demands).
\<close>

theorem generated_images_are_indexed_copies:
  fixes negative_prompt language output_gcs_uri :: "string option"
    and seed width height :: "int option" and guidance_scale :: "real option"
    and number_of_images :: int and prompt :: string and base_image mask_image :: "image option"
    and L :: lib and w :: world
  defines "shared \<equiv> snd (parameters_block negative_prompt number_of_images width height
                     guidance_scale seed language output_gcs_uri
                     (generation_shared L prompt number_of_images base_image mask_image))"
    and "parameters \<equiv> fst (parameters_block negative_prompt number_of_images width height
                     guidance_scale seed language output_gcs_uri
                     (generation_shared L prompt number_of_images base_image mask_image))"
    and "run \<equiv> private_generate_images L prompt negative_prompt number_of_images width height
                 guidance_scale seed base_image mask_image language output_gcs_uri w"
  assumes inv: "pred_option image_inv base_image" "pred_option image_inv mask_image"
    and answer: "predict L [PDict (generation_instance L prompt base_image mask_image)] parameters
                   = Inr predictions"
  shows
  "(\<forall>r bi mi w'. run = (Inr r, bi, mi, w') \<longrightarrow>
      length (images r) = length predictions
      \<and> (\<forall>i<length predictions.
            decode_prediction L (predictions ! i) (next_addr w + i) = Inr (images r ! i)
            \<and> generation_parameters (images r ! i) = Some (next_addr w + i)
            \<and> generation_parameters_get w' (images r ! i) =
                dict_set ''index_of_image_in_batch'' (PInt (int i)) shared
            \<and> map_of (generation_parameters_get w' (images r ! i)) ''index_of_image_in_batch'' =
                Some (PInt (int i))
            \<and> map_of (generation_parameters_get w' (images r ! i)) ''prompt'' = Some (PStr prompt)
            \<and> map_of (generation_parameters_get w' (images r ! i)) ''number_of_images_in_batch'' =
                Some (PInt number_of_images))
      \<and> distinct (map generation_parameters (images r))
      \<and> (\<forall>i<length predictions. \<forall>j<length predictions. \<forall>k v. i \<noteq> j \<longrightarrow>
            generation_parameters_get (store_set (next_addr w + i) k v w') (images r ! j) =
            generation_parameters_get w' (images r ! j)))
   \<and> ((\<forall>p\<in>set predictions. prediction_ok L p) \<longrightarrow>
        (\<exists>r w'. run = (Inr r, base_image, mask_image, w')))"
proof -
  define w3 where "w3 = w\<lparr>predict_log := predict_log w @
           [([PDict (generation_instance L prompt base_image mask_image)], parameters)]\<rparr>"
  have sh: "map_of shared ''prompt'' = Some (PStr prompt)"
    "map_of shared ''number_of_images_in_batch'' = Some (PInt number_of_images)"
    unfolding shared_def
    by (simp_all add: parameters_block_shared generation_shared_basic)
  have A: "\<forall>r bi mi w'. run = (Inr r, bi, mi, w') \<longrightarrow>
      length (images r) = length predictions
      \<and> (\<forall>i<length predictions.
            decode_prediction L (predictions ! i) (next_addr w + i) = Inr (images r ! i)
            \<and> generation_parameters (images r ! i) = Some (next_addr w + i)
            \<and> generation_parameters_get w' (images r ! i) =
                dict_set ''index_of_image_in_batch'' (PInt (int i)) shared
            \<and> map_of (generation_parameters_get w' (images r ! i)) ''index_of_image_in_batch'' =
                Some (PInt (int i))
            \<and> map_of (generation_parameters_get w' (images r ! i)) ''prompt'' = Some (PStr prompt)
            \<and> map_of (generation_parameters_get w' (images r ! i)) ''number_of_images_in_batch'' =
                Some (PInt number_of_images))
      \<and> distinct (map generation_parameters (images r))
      \<and> (\<forall>i<length predictions. \<forall>j<length predictions. \<forall>k v. i \<noteq> j \<longrightarrow>
            generation_parameters_get (store_set (next_addr w + i) k v w') (images r ! j) =
            generation_parameters_get w' (images r ! j))"
  proof (intro allI impI)
    fix r bi mi w'
    assume run: "run = (Inr r, bi, mi, w')"
    from private_generate_images_InrD[OF inv run[unfolded run_def]] answer
    have wp: "wrap_predictions L shared 0 predictions w3 = (Inr (images r), w')"
      by (auto simp: shared_def parameters_def w3_def)
    note ok = wrap_predictions_ok[OF wp]
    have n3: "next_addr w3 = next_addr w" by (simp add: w3_def)
    have len: "length (images r) = length predictions" using ok by simp
    have item: "decode_prediction L (predictions ! i) (next_addr w + i) = Inr (images r ! i)
        \<and> generation_parameters (images r ! i) = Some (next_addr w + i)
        \<and> generation_parameters_get w' (images r ! i) =
            dict_set ''index_of_image_in_batch'' (PInt (int i)) shared"
      if "i < length predictions" for i
    proof -
      from ok that n3 have d: "decode_prediction L (predictions ! i) (next_addr w + i) = Inr (images r ! i)"
        and b: "dicts w' (next_addr w + i) = dict_set ''index_of_image_in_batch'' (PInt (int i)) shared"
        by simp_all
      from decode_prediction_params[OF d] have "generation_parameters (images r ! i) = Some (next_addr w + i)"
        by simp
      with d b show ?thesis by (simp add: generation_parameters_get_def)
    qed
    have items: "\<forall>i<length predictions.
            decode_prediction L (predictions ! i) (next_addr w + i) = Inr (images r ! i)
            \<and> generation_parameters (images r ! i) = Some (next_addr w + i)
            \<and> generation_parameters_get w' (images r ! i) =
                dict_set ''index_of_image_in_batch'' (PInt (int i)) shared
            \<and> map_of (generation_parameters_get w' (images r ! i)) ''index_of_image_in_batch'' =
                Some (PInt (int i))
            \<and> map_of (generation_parameters_get w' (images r ! i)) ''prompt'' = Some (PStr prompt)
            \<and> map_of (generation_parameters_get w' (images r ! i)) ''number_of_images_in_batch'' =
                Some (PInt number_of_images)"
      using item sh by (simp add: map_of_dict_set)
    have nth: "map generation_parameters (images r) =
        map (\<lambda>i. Some (next_addr w + i)) [0..<length predictions]"
      using item len by (intro nth_equalityI) simp_all
    have dist: "distinct (map generation_parameters (images r))"
      unfolding nth by (simp add: distinct_map inj_on_def)
    have indep: "\<forall>i<length predictions. \<forall>j<length predictions. \<forall>k v. i \<noteq> j \<longrightarrow>
            generation_parameters_get (store_set (next_addr w + i) k v w') (images r ! j) =
            generation_parameters_get w' (images r ! j)"
      using item by (simp add: generation_parameters_get_def store_set_def)
    show "length (images r) = length predictions
      \<and> (\<forall>i<length predictions.
            decode_prediction L (predictions ! i) (next_addr w + i) = Inr (images r ! i)
            \<and> generation_parameters (images r ! i) = Some (next_addr w + i)
            \<and> generation_parameters_get w' (images r ! i) =
                dict_set ''index_of_image_in_batch'' (PInt (int i)) shared
            \<and> map_of (generation_parameters_get w' (images r ! i)) ''index_of_image_in_batch'' =
                Some (PInt (int i))
            \<and> map_of (generation_parameters_get w' (images r ! i)) ''prompt'' = Some (PStr prompt)
            \<and> map_of (generation_parameters_get w' (images r ! i)) ''number_of_images_in_batch'' =
                Some (PInt number_of_images))
      \<and> distinct (map generation_parameters (images r))
      \<and> (\<forall>i<length predictions. \<forall>j<length predictions. \<forall>k v. i \<noteq> j \<longrightarrow>
            generation_parameters_get (store_set (next_addr w + i) k v w') (images r ! j) =
            generation_parameters_get w' (images r ! j))"
      by (intro conjI len items dist indep)
  qed
  have B: "(\<forall>p\<in>set predictions. prediction_ok L p) \<longrightarrow>
        (\<exists>r w'. run = (Inr r, base_image, mask_image, w'))"
  proof
    assume "\<forall>p\<in>set predictions. prediction_ok L p"
    from wrap_predictions_succeeds[OF this] obtain gs w' where
      "wrap_predictions L shared 0 predictions w3 = (Inr gs, w')"
      by blast
    then show "\<exists>r w'. run = (Inr r, base_image, mask_image, w')"
      unfolding run_def private_generate_images_eq[OF inv]
      using answer
      by (simp add: endpoint_predict_def shared_def parameters_def w3_def split_beta)
  qed
  show ?thesis
    by (rule conjI[OF A B])
qed

theorem generated_images_are_indexed_copies_witness:
  "predict example_lib [PDict (generation_instance example_lib ''x'' None None)]
     (fst (parameters_block None 3 None None None None None None
             (generation_shared example_lib ''x'' 3 None None))) =
     Inr (replicate 3 (PDict [(''bytesBase64Encoded'', PStr ''cGl4ZWxz'')]))
   \<and> prediction_ok example_lib (PDict [(''bytesBase64Encoded'', PStr ''cGl4ZWxz'')])
   \<and> (case example_generated of
        (r, w') \<Rightarrow>
          (case r of
             Inl e \<Rightarrow> []
           | Inr response \<Rightarrow> map (generation_parameters_get w') (images response))) =
       [[(''prompt'', PStr ''x''), (''number_of_images_in_batch'', PInt 3),
         (''index_of_image_in_batch'', PInt 0)],
        [(''prompt'', PStr ''x''), (''number_of_images_in_batch'', PInt 3),
         (''index_of_image_in_batch'', PInt 1)],
        [(''prompt'', PStr ''x''), (''number_of_images_in_batch'', PInt 3),
         (''index_of_image_in_batch'', PInt 2)]]"
proof -
  let ?P = "PDict [(''bytesBase64Encoded'', PStr ''cGl4ZWxz'')]"
  have ans: "predict example_lib [PDict (generation_instance example_lib ''x'' None None)]
     (fst (parameters_block None 3 None None None None None None
             (generation_shared example_lib ''x'' 3 None None))) = Inr (replicate 3 ?P)"
    by (simp add: example_lib_def example_predict_def parameters_block_values)
  have ok: "prediction_ok example_lib ?P"
    by (simp add: prediction_ok_def decode_prediction_def dict_get_def example_lib_def
          GeneratedImage_init_def Image_init_def py_bool_seq_def)
  have sh: "snd (parameters_block None 3 None None None None None None
             (generation_shared example_lib ''x'' 3 None None)) =
      [(''prompt'', PStr ''x''), (''number_of_images_in_batch'', PInt 3)]"
    by (simp add: parameters_block_eq opt_set_def truthy_def generation_shared_def)
  note t = generated_images_are_indexed_copies
    [where base_image = None and mask_image = None and L = example_lib and prompt = "''x''"
       and negative_prompt = None and number_of_images = 3 and width = None and height = None
       and guidance_scale = None and seed = None and language = None and output_gcs_uri = None
       and w = example_world and predictions = "replicate 3 ?P", OF _ _ ans]
  from t ok obtain r w' where
    run: "private_generate_images example_lib ''x'' None 3 None None None None None None None None
            example_world = (Inr r, None, None, w')"
    by auto
  from t run have len: "length (images r) = 3"
    and items: "\<forall>i<3. generation_parameters_get w' (images r ! i) =
        dict_set ''index_of_image_in_batch'' (PInt (int i))
          [(''prompt'', PStr ''x''), (''number_of_images_in_batch'', PInt 3)]"
    by (simp_all add: sh)
  have "map (generation_parameters_get w') (images r) =
       [[(''prompt'', PStr ''x''), (''number_of_images_in_batch'', PInt 3),
         (''index_of_image_in_batch'', PInt 0)],
        [(''prompt'', PStr ''x''), (''number_of_images_in_batch'', PInt 3),
         (''index_of_image_in_batch'', PInt 1)],
        [(''prompt'', PStr ''x''), (''number_of_images_in_batch'', PInt 3),
         (''index_of_image_in_batch'', PInt 2)]]"
    using items by (subst list3_nth[OF len]) (simp add: dict_set_def)
  then show ?thesis
    using ans ok run by (simp add: example_generated_def generate_images_def)
qed

subsection \<open>C7: the provenance of a base image and a mask\<close>

text \<open>
  Claim C7. Take a call of \<^verbatim>\<open>_generate_images\<close> that returns a response, with the base
  image and the mask (when given) as their constructors leave them, and let \<open>bag g\<close> be
  the generation parameters of a returned image \<open>g\<close>. If the base image has a non-empty
  URI, every bag records it under \<^verbatim>\<open>base_image_uri\<close> and has no \<^verbatim>\<open>base_image_hash\<close>, and
  the instance sent refers to the image by \<^verbatim>\<open>gcsUri\<close>. If it has none, every bag records
  under \<^verbatim>\<open>base_image_hash\<close> the hex digest of exactly the bytes the image holds and has no
  \<^verbatim>\<open>base_image_uri\<close>, and the instance embeds the base64 encoding of those bytes. No bag
  ever has both keys. The same holds for the mask with \<^verbatim>\<open>mask_uri\<close> and \<^verbatim>\<open>mask_hash\<close>. The
  digest is \<^verbatim>\<open>hashlib.sha1(...).hexdigest()\<close>, a function of the library.
\<close>

theorem base_image_and_mask_provenance:
  fixes w' :: world and L :: lib
  defines "bag \<equiv> generation_parameters_get w'"
  assumes inv: "pred_option image_inv base_image" "pred_option image_inv mask_image"
    and run: "private_generate_images L prompt negative_prompt number_of_images width height
           guidance_scale seed base_image mask_image language output_gcs_uri w = (Inr r, bi, mi, w')"
  shows
  "(\<forall>g\<in>set (images r).
      (\<forall>b u. base_image = Some b \<and> gcs_uri b = Some u \<and> u \<noteq> [] \<longrightarrow>
         map_of (bag g) ''base_image_uri'' = Some (PStr u) \<and>
         map_of (bag g) ''base_image_hash'' = None)
    \<and> (\<forall>b bs. base_image = Some b \<and> (gcs_uri b = None \<or> gcs_uri b = Some []) \<and>
           loaded_bytes b = Some bs \<longrightarrow>
         map_of (bag g) ''base_image_hash'' = Some (PStr (sha1_hexdigest L bs)) \<and>
         map_of (bag g) ''base_image_uri'' = None)
    \<and> (\<forall>m u. mask_image = Some m \<and> gcs_uri m = Some u \<and> u \<noteq> [] \<longrightarrow>
         map_of (bag g) ''mask_uri'' = Some (PStr u) \<and> map_of (bag g) ''mask_hash'' = None)
    \<and> (\<forall>m bs. mask_image = Some m \<and> (gcs_uri m = None \<or> gcs_uri m = Some []) \<and>
           loaded_bytes m = Some bs \<longrightarrow>
         map_of (bag g) ''mask_hash'' = Some (PStr (sha1_hexdigest L bs)) \<and>
         map_of (bag g) ''mask_uri'' = None)
    \<and> (map_of (bag g) ''base_image_uri'' = None \<or> map_of (bag g) ''base_image_hash'' = None)
    \<and> (map_of (bag g) ''mask_uri'' = None \<or> map_of (bag g) ''mask_hash'' = None))
   \<and> (\<forall>b u. base_image = Some b \<and> gcs_uri b = Some u \<and> u \<noteq> [] \<longrightarrow>
         map_of (generation_instance L prompt base_image mask_image) ''image'' =
           Some (PDict [(''gcsUri'', PStr u)]))
   \<and> (\<forall>b bs. base_image = Some b \<and> (gcs_uri b = None \<or> gcs_uri b = Some []) \<and>
           loaded_bytes b = Some bs \<longrightarrow>
         map_of (generation_instance L prompt base_image mask_image) ''image'' =
           Some (PDict [(''bytesBase64Encoded'', PStr (b64encode L bs))]))
   \<and> (\<forall>m u. mask_image = Some m \<and> gcs_uri m = Some u \<and> u \<noteq> [] \<longrightarrow>
         map_of (generation_instance L prompt base_image mask_image) ''mask'' =
           Some (PDict [(''image'', PDict [(''gcsUri'', PStr u)])]))
   \<and> (\<forall>m bs. mask_image = Some m \<and> (gcs_uri m = None \<or> gcs_uri m = Some []) \<and>
           loaded_bytes m = Some bs \<longrightarrow>
         map_of (generation_instance L prompt base_image mask_image) ''mask'' =
           Some (PDict [(''image'', PDict [(''bytesBase64Encoded'', PStr (b64encode L bs))])]))
   \<and> predict_log w' =
       predict_log w @
         [([PDict (generation_instance L prompt base_image mask_image)],
           fst (parameters_block negative_prompt number_of_images width height guidance_scale seed
                  language output_gcs_uri
                  (generation_shared L prompt number_of_images base_image mask_image)))]"
proof -
  have t: "(x = None \<or> x = Some []) = (\<not> py_bool_seq x)" for x :: "string option"
    by (cases x) (simp_all add: py_bool_seq_def)
  have prov: "map_of (bag g) k =
         map_of (generation_shared L prompt number_of_images base_image mask_image) k"
    if "g \<in> set (images r)"
      "k \<in> {''base_image_uri'', ''base_image_hash'', ''mask_uri'', ''mask_hash''}" for g k
    unfolding bag_def using generated_bag_provenance[OF inv run that] .
  have remote: "map_of (record_provenance L uk hk i []) uk = Some (PStr u) \<and>
      map_of (record_provenance L uk hk i []) hk = None"
    if "gcs_uri i = Some u" "u \<noteq> []" "uk \<noteq> hk" for i u uk hk
    using map_of_record_provenance_remote[OF that, of L "[]"] by simp
  have inline: "map_of (record_provenance L uk hk i []) hk = Some (PStr (sha1_hexdigest L bs)) \<and>
      map_of (record_provenance L uk hk i []) uk = None"
    if "\<not> py_bool_seq (gcs_uri i)" "loaded_bytes i = Some bs" "uk \<noteq> hk" for i bs uk hk
    using map_of_record_provenance_inline[OF that, of L "[]"] by simp
  have never: "map_of (record_provenance L uk hk i []) uk = None \<or>
      map_of (record_provenance L uk hk i []) hk = None" if "uk \<noteq> hk" for i uk hk
    using that
    by (auto simp: record_provenance_def map_of_dict_set split: option.splits list.splits)
  have bags: "(\<forall>b u. base_image = Some b \<and> gcs_uri b = Some u \<and> u \<noteq> [] \<longrightarrow>
         map_of (bag g) ''base_image_uri'' = Some (PStr u) \<and>
         map_of (bag g) ''base_image_hash'' = None)
    \<and> (\<forall>b bs. base_image = Some b \<and> \<not> py_bool_seq (gcs_uri b) \<and>
           loaded_bytes b = Some bs \<longrightarrow>
         map_of (bag g) ''base_image_hash'' = Some (PStr (sha1_hexdigest L bs)) \<and>
         map_of (bag g) ''base_image_uri'' = None)
    \<and> (\<forall>m u. mask_image = Some m \<and> gcs_uri m = Some u \<and> u \<noteq> [] \<longrightarrow>
         map_of (bag g) ''mask_uri'' = Some (PStr u) \<and> map_of (bag g) ''mask_hash'' = None)
    \<and> (\<forall>m bs. mask_image = Some m \<and> \<not> py_bool_seq (gcs_uri m) \<and>
           loaded_bytes m = Some bs \<longrightarrow>
         map_of (bag g) ''mask_hash'' = Some (PStr (sha1_hexdigest L bs)) \<and>
         map_of (bag g) ''mask_uri'' = None)
    \<and> (map_of (bag g) ''base_image_uri'' = None \<or> map_of (bag g) ''base_image_hash'' = None)
    \<and> (map_of (bag g) ''mask_uri'' = None \<or> map_of (bag g) ''mask_hash'' = None)"
    if g: "g \<in> set (images r)" for g
  proof -
    have b: "map_of (bag g) ''base_image_uri'' =
        (case base_image of None \<Rightarrow> None
         | Some b \<Rightarrow> map_of (record_provenance L ''base_image_uri'' ''base_image_hash'' b [])
                      ''base_image_uri'')"
      "map_of (bag g) ''base_image_hash'' =
        (case base_image of None \<Rightarrow> None
         | Some b \<Rightarrow> map_of (record_provenance L ''base_image_uri'' ''base_image_hash'' b [])
                      ''base_image_hash'')"
      "map_of (bag g) ''mask_uri'' =
        (case mask_image of None \<Rightarrow> None
         | Some m \<Rightarrow> map_of (record_provenance L ''mask_uri'' ''mask_hash'' m []) ''mask_uri'')"
      "map_of (bag g) ''mask_hash'' =
        (case mask_image of None \<Rightarrow> None
         | Some m \<Rightarrow> map_of (record_provenance L ''mask_uri'' ''mask_hash'' m []) ''mask_hash'')"
      by (simp_all add: prov[OF g] generation_shared_base generation_shared_mask)
    have ne: "''base_image_uri'' \<noteq> ''base_image_hash''" "''mask_uri'' \<noteq> ''mask_hash''"
      by simp_all
    show ?thesis
      unfolding b
      using remote[OF _ _ ne(1)] inline[OF _ _ ne(1)] never[OF ne(1)]
        remote[OF _ _ ne(2)] inline[OF _ _ ne(2)] never[OF ne(2)]
      by (cases base_image; cases mask_image) auto
  qed
  have ser_remote: "serialize_for_request L i = [(''gcsUri'', PStr u)]"
    if "gcs_uri i = Some u" "u \<noteq> []" for i u
    using that by (cases u) (simp_all add: serialize_for_request_def)
  have ser_inline: "serialize_for_request L i = [(''bytesBase64Encoded'', PStr (b64encode L bs))]"
    if "\<not> py_bool_seq (gcs_uri i)" "loaded_bytes i = Some bs" for i bs
    using that
    by (auto simp: serialize_for_request_def py_bool_seq_def split: option.splits list.splits)
  have log: "predict_log w' =
       predict_log w @
         [([PDict (generation_instance L prompt base_image mask_image)],
           fst (parameters_block negative_prompt number_of_images width height guidance_scale seed
                  language output_gcs_uri
                  (generation_shared L prompt number_of_images base_image mask_image)))]"
    using private_generate_images_request[OF inv, of L prompt negative_prompt number_of_images
        width height guidance_scale seed language output_gcs_uri w] run
    by simp
  show ?thesis
    unfolding t
    using bags log ser_remote ser_inline
    by (auto simp: generation_instance_entries)
qed

theorem base_image_and_mask_provenance_witness:
  "pred_option image_inv (Some (example_image 1024 1024))
   \<and> pred_option image_inv (Some example_remote_image)
   \<and> gcs_uri (example_image 1024 1024) = None
   \<and> loaded_bytes (example_image 1024 1024) = Some [1, 2, 3]
   \<and> gcs_uri example_remote_image = Some ''gs://bucket/cat.png''
   \<and> fst example_edited =
       Inr \<lparr>images =
         [\<lparr>loaded_bytes = Some (map (\<lambda>c. of_nat (of_char c)) ''cGl4ZWxz''), loaded_image = None,
           gcs_uri = None, generation_parameters = Some 0\<rparr>]\<rparr>
   \<and> generation_parameters_get (snd (snd (snd example_edited)))
        \<lparr>loaded_bytes = Some (map (\<lambda>c. of_nat (of_char c)) ''cGl4ZWxz''), loaded_image = None,
         gcs_uri = None, generation_parameters = Some 0\<rparr> =
       [(''prompt'', PStr ''x''), (''number_of_images_in_batch'', PInt 1),
        (''base_image_hash'', PStr (sha1_hexdigest example_lib [1, 2, 3])),
        (''mask_uri'', PStr ''gs://bucket/cat.png''),
        (''index_of_image_in_batch'', PInt 0)]"
proof -
  have inv: "pred_option image_inv (Some (example_image 1024 1024))"
    "pred_option image_inv (Some example_remote_image)"
    by (simp_all add: example_image_inv example_remote_image_inv)
  note run = example_edited_eq[unfolded example_edited_def edit_image_def]
  note t = base_image_and_mask_provenance[OF inv run]
  have f: "gcs_uri (example_image 1024 1024) = None"
    "loaded_bytes (example_image 1024 1024) = Some [1, 2, 3]"
    "gcs_uri example_remote_image = Some ''gs://bucket/cat.png''"
    by (simp_all add: example_image_def example_remote_image_def)
  from t f inv show ?thesis
    by (simp add: example_edited_eq generation_parameters_get_def)
qed

subsection \<open>C1: saving and loading the generation parameters\<close>




end
